theory Spec2Isabelle
  imports Complex_Main "HOL-Library.Word"
begin

section \<open>The PostGIS Raster band: a shallow embedding\<close>

text \<open>
  The embedding follows \<^verbatim>\<open>src/postgisrasterrasterband.cpp\<close>. C \<^verbatim>\<open>int\<close> values are
  modelled as \<open>int\<close> (no claim depends on wrap-around), C strings as \<open>string\<close>.
  A C \<^verbatim>\<open>double\<close> is modelled by the real number it denotes. Comparison, \<^verbatim>\<open>fabs\<close>
  and the conversion of an \<^verbatim>\<open>int\<close> are exact on doubles and are those of the
  reals. In the computation of a tile's windows, where the results are rounded to
  the format and then cut to an \<^verbatim>\<open>int\<close>, sum, difference, product and quotient
  are operations of the environment (any rounding the platform does is one of
  them), and so is the conversion to \<^verbatim>\<open>int\<close> of a value outside the range of an
  \<^verbatim>\<open>int\<close>, which C leaves undefined. The corners of the query's polygon are
  written as exact expressions in the transform and the window.
  Calls into the host library and into the store are parameters of the model
  (the record \<open>environment\<close> below); what the band does with their results is the code's.
\<close>

subsection \<open>Host enumerations\<close>

datatype GDALDataType =
    GDT_Unknown | GDT_Byte | GDT_UInt16 | GDT_Int16 | GDT_UInt32 | GDT_Int32
  | GDT_Float32 | GDT_Float64 | GDT_CInt16 | GDT_CInt32 | GDT_CFloat32 | GDT_CFloat64

datatype CPLErr = CE_None | CE_Debug | CE_Warning | CE_Failure | CE_Fatal

datatype CPLErrorNum = CPLE_AppDefined | CPLE_OutOfMemory | CPLE_NotSupported

datatype GDALRWFlag = GF_Read | GF_Write

text \<open>The host's \<^verbatim>\<open>GDALGetDataTypeSize\<close>: the size of a data type in bits.\<close>

fun GDALGetDataTypeSize :: "GDALDataType \<Rightarrow> int" where
  "GDALGetDataTypeSize GDT_Unknown = 0"
| "GDALGetDataTypeSize GDT_Byte = 8"
| "GDALGetDataTypeSize GDT_UInt16 = 16"
| "GDALGetDataTypeSize GDT_Int16 = 16"
| "GDALGetDataTypeSize GDT_UInt32 = 32"
| "GDALGetDataTypeSize GDT_Int32 = 32"
| "GDALGetDataTypeSize GDT_Float32 = 32"
| "GDALGetDataTypeSize GDT_Float64 = 64"
| "GDALGetDataTypeSize GDT_CInt16 = 32"
| "GDALGetDataTypeSize GDT_CInt32 = 64"
| "GDALGetDataTypeSize GDT_CFloat32 = 64"
| "GDALGetDataTypeSize GDT_CFloat64 = 128"

subsection \<open>The pixel-type classifier\<close>

text \<open>
  \<^verbatim>\<open>EQUALN(a, b, n)\<close> is the host's macro for \<^verbatim>\<open>strncasecmp(a, b, n) == 0\<close>: the
  first \<open>n\<close> characters of the two C strings are compared without regard to the
  case of ASCII letters, and a string that ends before \<open>n\<close> characters only equals
  a string that ends at the same place.
\<close>

definition c_toupper :: "char \<Rightarrow> char" where
  "c_toupper c =
     (let k = (of_char c :: nat)
      in if 97 \<le> k \<and> k \<le> 122 then char_of (k - 32) else c)"

definition EQUALN :: "string \<Rightarrow> string \<Rightarrow> nat \<Rightarrow> bool" where
  "EQUALN a b n = (map c_toupper (take n a) = map c_toupper (take n b))"

definition TranslateDataType :: "string \<Rightarrow> GDALDataType" where
  "TranslateDataType pszDataType =
     (if EQUALN pszDataType ''1BB'' 3 \<or>
         EQUALN pszDataType ''2BUI'' 4 \<or>
         EQUALN pszDataType ''4BUI'' 4 \<or>
         EQUALN pszDataType ''8BUI'' 4 \<or>
         EQUALN pszDataType ''8BSI'' 4
      then GDT_Byte
      else if EQUALN pszDataType ''16BSI'' 5 then GDT_Int16
      else if EQUALN pszDataType ''16BUI'' 5 then GDT_UInt16
      else if EQUALN pszDataType ''32BSI'' 5 then GDT_Int32
      else if EQUALN pszDataType ''32BUI'' 5 then GDT_UInt32
      else if EQUALN pszDataType ''32BF'' 4 then GDT_Float32
      else if EQUALN pszDataType ''64BF'' 4 then GDT_Float64
      else GDT_Unknown)"

text \<open>The eleven tags the classifier names, each with the type the code returns for it.\<close>

definition recognized_tags :: "(string \<times> GDALDataType) list" where
  "recognized_tags =
     [(''1BB'', GDT_Byte), (''2BUI'', GDT_Byte), (''4BUI'', GDT_Byte),
      (''8BUI'', GDT_Byte), (''8BSI'', GDT_Byte), (''16BSI'', GDT_Int16),
      (''16BUI'', GDT_UInt16), (''32BSI'', GDT_Int32), (''32BUI'', GDT_UInt32),
      (''32BF'', GDT_Float32), (''64BF'', GDT_Float64)]"

text \<open>A tag starts with a recognized tag, letter case apart.\<close>

definition starts_with_recognized :: "string \<Rightarrow> bool" where
  "starts_with_recognized s =
     list_ex (\<lambda>(t, ty). EQUALN s t (length t)) recognized_tags"

subsection \<open>The dataset\<close>

text \<open>
  \<^verbatim>\<open>double adfTransform[6]\<close>: an array of six coefficients, read at constant indices.
\<close>

type_synonym geotransform = "nat \<Rightarrow> real"

text \<open>
  Modelled from the spec: the index constants \<^verbatim>\<open>GEOTRSFRM_*\<close> are declared in
  \<^verbatim>\<open>postgisraster.h\<close>, which is not among the sources. The spec gives the transform
  as \<open>T = [tlx, wex, rot1, tly, rot2, nsy]\<close>, and the code itself reads the x scale
  at index 1 and the y scale at index 5.
\<close>

definition GEOTRSFRM_TOPLEFT_X :: nat where "GEOTRSFRM_TOPLEFT_X = 0"
definition GEOTRSFRM_WE_RES :: nat where "GEOTRSFRM_WE_RES = 1"
definition GEOTRSFRM_ROTATION_PARAM1 :: nat where "GEOTRSFRM_ROTATION_PARAM1 = 2"
definition GEOTRSFRM_TOPLEFT_Y :: nat where "GEOTRSFRM_TOPLEFT_Y = 3"
definition GEOTRSFRM_ROTATION_PARAM2 :: nat where "GEOTRSFRM_ROTATION_PARAM2 = 4"
definition GEOTRSFRM_NS_RES :: nat where "GEOTRSFRM_NS_RES = 5"

lemmas GEOTRSFRM_defs =
  GEOTRSFRM_TOPLEFT_X_def GEOTRSFRM_WE_RES_def GEOTRSFRM_ROTATION_PARAM1_def
  GEOTRSFRM_TOPLEFT_Y_def GEOTRSFRM_ROTATION_PARAM2_def GEOTRSFRM_NS_RES_def

datatype GDALAccess = GA_ReadOnly | GA_Update

text \<open>
  The fields of \<^verbatim>\<open>PostGISRasterDataset\<close> the band reads. \<open>adfGeoTransform\<close> is what
  \<^verbatim>\<open>GetGeoTransform\<close> copies out, \<open>pszProjection\<close> what \<^verbatim>\<open>GDALGetProjectionRef\<close>
  returns, \<open>eAccess_ds\<close> what \<^verbatim>\<open>GetAccess\<close> returns.
\<close>

record PostGISRasterDataset =
  bRegularBlocking :: bool
  nRasterXSize :: int
  nRasterYSize :: int
  nSrid :: int
  pszSchema :: string
  pszTable :: string
  pszColumn :: string
  pszWhere :: "string option"
  xmin :: real
  ymax :: real
  adfGeoTransform :: geotransform
  pszProjection :: string
  eAccess_ds :: GDALAccess

subsection \<open>What the band asks of the host and of the store\<close>

datatype 'r PGresult = PG_NULL | PGRES_FATAL_ERROR | PGRES_TUPLES_OK "'r list"

text \<open>
  A row of the overview catalogue and a row of the tile enumeration. The code reads
  the columns as text and converts them with \<^verbatim>\<open>atoi\<close> and \<^verbatim>\<open>atof\<close>; the rows
  here hold the converted values.
\<close>

record overview_row =
  o_table_name :: string
  overview_factor :: int
  o_raster_column :: string
  o_table_schema :: string

record tile_row =
  pszHexWKB :: string
  nTileWidth :: int
  nTileHeight :: int
  pszDataType :: string
  dfTileBandNoDataValue :: real
  dfTileScaleX :: real
  dfTileScaleY :: real
  dfTileUpperLeftX :: real
  dfTileUpperLeftY :: real

text \<open>
  The arguments of the \<^verbatim>\<open>Printf\<close> that builds the tile enumeration query: the
  column, band and table names, the optional filter, the ten coordinates of the
  polygon as five points, the SRID and the two ordering directions.
\<close>

record tile_query =
  q_column :: string
  q_band :: int
  q_schema :: string
  q_table :: string
  q_where :: "string option"
  q_polygon :: "(real \<times> real) list"
  q_srid :: int
  q_orderByY :: string
  q_orderByX :: string

text \<open>The arguments of a windowed read, the buffer apart.\<close>

record rasterio_request =
  eRWFlag :: GDALRWFlag
  nXOff :: int
  nYOff :: int
  nXSize :: int
  nYSize :: int
  nBufXSize :: int
  nBufYSize :: int
  eBufType :: GDALDataType
  nPixelSpace :: int
  nLineSpace :: int

text \<open>
  The in-memory band opened on a tile's pixels, and the arguments of
  \<^verbatim>\<open>VRTAddSimpleSource\<close>.
\<close>

record mem_band =
  mem_iTuplesIndex :: nat
  mem_DATAPOINTER :: "8 word list"
  mem_PIXELS :: int
  mem_LINES :: int
  mem_DATATYPE :: GDALDataType
  mem_NoDataValue :: real

record simple_source =
  hSrcBand :: mem_band
  nSrcXOff :: int
  nSrcYOff :: int
  nSrcXSize :: int
  nSrcYSize :: int
  nDstXOff :: int
  nDstYOff :: int
  nDstXSize :: int
  nDstYSize :: int
  dfNoDataValue_src :: real

record vrt_dataset =
  vrt_nXSize :: int
  vrt_nYSize :: int
  vrt_projection :: string
  vrt_transform :: geotransform
  vrt_eDataType :: GDALDataType
  vrt_sources :: "simple_source list"

text \<open>
  The environment of a band: the constants of \<^verbatim>\<open>postgisraster.h\<close> (not among the
  sources), the answers of the store, the outcome of each allocation the code
  checks, the host's read primitives, which take the caller's buffer and
  return a status and the buffer as they leave it, and the platform's arithmetic
  on doubles: the four rounded operations, and what the cast \<^verbatim>\<open>(int)\<close> gives for
  a double outside the range of an \<^verbatim>\<open>int\<close>.
\<close>

record environment =
  DEFAULT_BLOCK_X_SIZE :: int
  DEFAULT_BLOCK_Y_SIZE :: int
  PQexec_overviews :: "string \<Rightarrow> string \<Rightarrow> string \<Rightarrow> overview_row PGresult"
  VSICalloc_ok :: bool
  OverviewRasterIO :: "rasterio_request \<Rightarrow> 8 word list \<Rightarrow> CPLErr \<times> 8 word list"
  PQexec_tiles :: "tile_query \<Rightarrow> tile_row PGresult"
  CPLCalloc_ok :: bool
  VRTCreate_ok :: bool
  CPLHexToBinary :: "string \<Rightarrow> 8 word list"
  GET_BAND_DATA :: "8 word list \<Rightarrow> int \<Rightarrow> int \<Rightarrow> int \<Rightarrow> 8 word list"
  new_GDALOpenInfo_ok :: "nat \<Rightarrow> bool"
  MEMDataset_Open_ok :: "nat \<Rightarrow> bool"
  GetRasterBand_ok :: "nat \<Rightarrow> bool"
  VRTRasterIO :: "vrt_dataset \<Rightarrow> rasterio_request \<Rightarrow> 8 word list \<Rightarrow> CPLErr \<times> 8 word list"
  dbl_add :: "real \<Rightarrow> real \<Rightarrow> real"
  dbl_sub :: "real \<Rightarrow> real \<Rightarrow> real"
  dbl_mul :: "real \<Rightarrow> real \<Rightarrow> real"
  dbl_div :: "real \<Rightarrow> real \<Rightarrow> real"
  out_of_range_cast :: "real \<Rightarrow> int"

subsection \<open>The band and its constructor\<close>

datatype PostGISRasterRasterBand = Band
  (poDS: PostGISRasterDataset)
  (nBand: int)
  (bIsOffline: bool)
  (eAccess: GDALAccess)
  (eDataType: GDALDataType)
  (bHasNoDataValue: bool)
  (dfNoDataValue: real)
  (nBlockXSize: int)
  (nBlockYSize: int)
  (metadata: "(string \<times> (string + int) \<times> string) list")
  (nOverviewFactor: int)
  (nOverviewCount: int)
  (papoOverviews: "PostGISRasterRasterBand list option")
  (nRasterXSize_band: int)
  (nRasterYSize_band: int)

text \<open>The constructor's arguments after the dataset.\<close>

record band_args =
  arg_nBand :: int
  arg_hDataType :: GDALDataType
  arg_bHasNoDataValue :: bool
  arg_dfNodata :: real
  arg_bSignedByte :: bool
  arg_nBitDepth :: int
  arg_nFactor :: int
  arg_nBlockXSize :: int
  arg_nBlockYSize :: int
  arg_bIsOffline :: bool

definition c_MIN :: "int \<Rightarrow> int \<Rightarrow> int" where
  "c_MIN a b = (if a < b then a else b)"

text \<open>The C cast \<^verbatim>\<open>(int)\<close> of a double: the fraction is dropped, towards zero.\<close>

definition c_int_of_double :: "real \<Rightarrow> int" where
  "c_int_of_double x = (if 0 \<le> x then \<lfloor>x\<rfloor> else \<lceil>x\<rceil>)"

text \<open>
  The cast is defined by C when the double, its fraction dropped, is a value of
  the 32-bit \<^verbatim>\<open>int\<close>; for any other double the result is the platform's.
\<close>

definition in_int_range :: "real \<Rightarrow> bool" where
  "in_int_range x = (- 2147483649 < x \<and> x < 2147483648)"

definition int_cast :: "environment \<Rightarrow> real \<Rightarrow> int" where
  "int_cast env x = (if in_int_range x then c_int_of_double x else out_of_range_cast env x)"

text \<open>
  The constructor. A level-0 band (factor 0) constructs one band for each row of
  the overview catalogue, with the row's factor; a row whose factor is 0 makes
  that band a level-0 band again, which queries the same catalogue. The first
  argument bounds the depth of this nesting: \<open>None\<close> means the bound was reached.
  When the array of overviews cannot be allocated the constructor returns early,
  with the count set and no array.
\<close>

fun PostGISRasterRasterBand_new ::
  "nat \<Rightarrow> environment \<Rightarrow> PostGISRasterDataset \<Rightarrow> band_args \<Rightarrow> PostGISRasterRasterBand option"
where
  "PostGISRasterRasterBand_new 0 env ds a = None"
| "PostGISRasterRasterBand_new (Suc k) env ds a =
     (let bx = (if bRegularBlocking ds then arg_nBlockXSize a
                else c_MIN (nRasterXSize ds) (DEFAULT_BLOCK_X_SIZE env));
          by = (if bRegularBlocking ds then arg_nBlockYSize a
                else c_MIN (nRasterYSize ds) (DEFAULT_BLOCK_Y_SIZE env));
          md = (if arg_bSignedByte a
                then [(''PIXELTYPE'', Inl ''SIGNEDBYTE'', ''IMAGE_STRUCTURE'')] else []) @
               (if arg_nBitDepth a < 8
                then [(''NBITS'', Inr (arg_nBitDepth a), ''IMAGE_STRUCTURE'')] else []);
          mk = (\<lambda>cnt ovs xs ys.
                  Band ds (arg_nBand a) (arg_bIsOffline a) (eAccess_ds ds) (arg_hDataType a)
                    (arg_bHasNoDataValue a) (arg_dfNodata a) bx by md (arg_nFactor a)
                    cnt ovs xs ys)
      in if arg_nFactor a = 0 then
           (case PQexec_overviews env (pszSchema ds) (pszTable ds) (pszColumn ds) of
              PGRES_TUPLES_OK (r # rs) \<Rightarrow>
                if \<not> VSICalloc_ok env
                then Some (mk (int (length (r # rs))) None (nRasterXSize ds) (nRasterYSize ds))
                else
                  (let made = map (\<lambda>row. PostGISRasterRasterBand_new k env ds
                                     (a\<lparr>arg_nFactor := overview_factor row\<rparr>)) (r # rs)
                   in if list_all (\<lambda>m. m \<noteq> None) made
                      then Some (mk (int (length (r # rs))) (Some (map the made))
                                   (nRasterXSize ds) (nRasterYSize ds))
                      else None)
            | _ \<Rightarrow> Some (mk 0 None (nRasterXSize ds) (nRasterYSize ds)))
         else
           Some (mk 0 None
             (c_int_of_double (of_int \<lfloor>real_of_int (nRasterXSize ds) / real_of_int (arg_nFactor a)\<rfloor>))
             (c_int_of_double (of_int \<lfloor>real_of_int (nRasterYSize ds) / real_of_int (arg_nFactor a)\<rfloor>))))"

subsection \<open>The band's accessors\<close>

definition GetBand :: "PostGISRasterRasterBand \<Rightarrow> int" where
  "GetBand b = (if nOverviewFactor b \<noteq> 0 then 0 else nBand b)"

definition GetDataset :: "PostGISRasterRasterBand \<Rightarrow> PostGISRasterDataset option" where
  "GetDataset b = (if nOverviewFactor b \<noteq> 0 then None else Some (poDS b))"

definition HasArbitraryOverviews :: "PostGISRasterRasterBand \<Rightarrow> bool" where
  "HasArbitraryOverviews b = (if nOverviewFactor b \<noteq> 0 then False else True)"

definition GetOverviewCount :: "PostGISRasterRasterBand \<Rightarrow> int" where
  "GetOverviewCount b = (if nOverviewFactor b \<noteq> 0 then 0 else nOverviewCount b)"

text \<open>
  \<^verbatim>\<open>GetBlockSize\<close>: the errors raised and the two sizes stored through the pointers;
  the host's \<^verbatim>\<open>GDALRasterBand::GetBlockSize\<close> stores the band's two fields.
\<close>

definition GetBlockSize :: "PostGISRasterRasterBand \<Rightarrow> (CPLErr \<times> CPLErrorNum) list \<times> int \<times> int" where
  "GetBlockSize b =
     (if nBlockXSize b = 0 \<or> nBlockYSize b = 0
      then ([(CE_Failure, CPLE_AppDefined)], 0, 0)
      else ([], nBlockXSize b, nBlockYSize b))"

subsection \<open>The windowed read\<close>

text \<open>
  The eight doubles \<^verbatim>\<open>adfProjWin[0..7]\<close>: the window's corners in world
  coordinates, with \<open>lrx\<close> and \<open>lry\<close> as the code computes them.
\<close>

definition adfProjWin :: "geotransform \<Rightarrow> int \<Rightarrow> int \<Rightarrow> int \<Rightarrow> int \<Rightarrow> int \<Rightarrow> real list" where
  "adfProjWin adfTransform xoff yoff xsize ysize nBandDataSize =
     (let ulx = xoff;
          uly = yoff;
          lrx = xoff + xsize * nBandDataSize;
          lry = yoff + ysize * nBandDataSize
      in [adfTransform GEOTRSFRM_TOPLEFT_X +
            of_int ulx * adfTransform GEOTRSFRM_WE_RES +
            of_int uly * adfTransform GEOTRSFRM_ROTATION_PARAM1,
          adfTransform GEOTRSFRM_TOPLEFT_Y +
            of_int ulx * adfTransform GEOTRSFRM_ROTATION_PARAM2 +
            of_int uly * adfTransform GEOTRSFRM_NS_RES,
          adfTransform GEOTRSFRM_TOPLEFT_X +
            of_int lrx * adfTransform GEOTRSFRM_WE_RES +
            of_int uly * adfTransform GEOTRSFRM_ROTATION_PARAM1,
          adfTransform GEOTRSFRM_TOPLEFT_Y +
            of_int lrx * adfTransform GEOTRSFRM_ROTATION_PARAM2 +
            of_int uly * adfTransform GEOTRSFRM_NS_RES,
          adfTransform GEOTRSFRM_TOPLEFT_X +
            of_int lrx * adfTransform GEOTRSFRM_WE_RES +
            of_int lry * adfTransform GEOTRSFRM_ROTATION_PARAM1,
          adfTransform GEOTRSFRM_TOPLEFT_Y +
            of_int lrx * adfTransform GEOTRSFRM_ROTATION_PARAM2 +
            of_int lry * adfTransform GEOTRSFRM_NS_RES,
          adfTransform GEOTRSFRM_TOPLEFT_X +
            of_int ulx * adfTransform GEOTRSFRM_WE_RES +
            of_int lry * adfTransform GEOTRSFRM_ROTATION_PARAM1,
          adfTransform GEOTRSFRM_TOPLEFT_Y +
            of_int ulx * adfTransform GEOTRSFRM_ROTATION_PARAM2 +
            of_int lry * adfTransform GEOTRSFRM_NS_RES])"

text \<open>
  The query of the read: both \<^verbatim>\<open>Printf\<close> calls take the same arguments, the filter
  apart; the polygon's coordinates are \<^verbatim>\<open>adfProjWin[0..7]\<close> followed by
  \<^verbatim>\<open>adfProjWin[0]\<close> and \<^verbatim>\<open>adfProjWin[1]\<close> again.
\<close>

definition tile_query_of :: "PostGISRasterRasterBand \<Rightarrow> rasterio_request \<Rightarrow> tile_query" where
  "tile_query_of b rq =
     (let ds = poDS b;
          nBandDataSize = GDALGetDataTypeSize (eDataType b) div 8;
          w = adfProjWin (adfGeoTransform ds) (nXOff rq) (nYOff rq) (nXSize rq) (nYSize rq)
                nBandDataSize;
          orderByX = ''asc'';
          orderByY = (if nSrid ds = - 1 then ''asc'' else ''desc'')
      in \<lparr>q_column = pszColumn ds, q_band = nBand b, q_schema = pszSchema ds,
          q_table = pszTable ds, q_where = pszWhere ds,
          q_polygon = [(w ! 0, w ! 1), (w ! 2, w ! 3), (w ! 4, w ! 5), (w ! 6, w ! 7),
                       (w ! 0, w ! 1)],
          q_srid = nSrid ds, q_orderByY = orderByY, q_orderByX = orderByX\<rparr>)"

text \<open>
  The source and destination windows of one tile, and the call of
  \<^verbatim>\<open>VRTAddSimpleSource\<close> with them.
\<close>

definition tile_source ::
  "environment \<Rightarrow> PostGISRasterDataset \<Rightarrow> geotransform \<Rightarrow> nat \<Rightarrow> tile_row \<Rightarrow> simple_source"
where
  "tile_source env ds adfTransform iTuplesIndex r =
     (let pbyData = CPLHexToBinary env (pszHexWKB r);
          eTileDataType = TranslateDataType (pszDataType r);
          nTileDataTypeSize = GDALGetDataTypeSize eTileDataType div 8;
          nBandDataLength = nTileWidth r * nTileHeight r * nTileDataTypeSize;
          pbyBandData = GET_BAND_DATA env pbyData 1 nTileDataTypeSize nBandDataLength;
          memRasterBand =
            \<lparr>mem_iTuplesIndex = iTuplesIndex, mem_DATAPOINTER = pbyBandData,
             mem_PIXELS = nTileWidth r, mem_LINES = nTileHeight r,
             mem_DATATYPE = eTileDataType, mem_NoDataValue = dfTileBandNoDataValue r\<rparr>;
          sx = (if dfTileUpperLeftX r < xmin ds
                then int_cast env
                       (dbl_add env
                          (dbl_div env (dbl_sub env (xmin ds) (dfTileUpperLeftX r))
                             (dfTileScaleX r))
                          0.5)
                else 0);
          dx = (if dfTileUpperLeftX r < xmin ds
                then 0
                else int_cast env
                       (dbl_add env 0.5
                          (dbl_div env (dbl_sub env (dfTileUpperLeftX r) (xmin ds))
                             (adfTransform 1))));
          sy = (if ymax ds < dfTileUpperLeftY r
                then int_cast env
                       (dbl_add env
                          (dbl_div env (dbl_sub env (dfTileUpperLeftY r) (ymax ds))
                             \<bar>dfTileScaleY r\<bar>)
                          0.5)
                else 0);
          dy = (if ymax ds < dfTileUpperLeftY r
                then 0
                else int_cast env
                       (dbl_add env 0.5
                          (dbl_div env (dbl_sub env (ymax ds) (dfTileUpperLeftY r))
                             \<bar>adfTransform 5\<bar>)));
          dxs = int_cast env
                  (dbl_add env 0.5
                     (dbl_div env (dbl_mul env (of_int (nTileWidth r)) (dfTileScaleX r))
                        (adfTransform 1)));
          dys = int_cast env
                  (dbl_add env 0.5
                     (dbl_div env (dbl_mul env (of_int (nTileHeight r)) \<bar>dfTileScaleY r\<bar>)
                        \<bar>adfTransform 5\<bar>))
      in \<lparr>hSrcBand = memRasterBand, nSrcXOff = sx, nSrcYOff = sy,
          nSrcXSize = nTileWidth r, nSrcYSize = nTileHeight r,
          nDstXOff = dx, nDstYOff = dy, nDstXSize = dxs, nDstYSize = dys,
          dfNoDataValue_src = dfTileBandNoDataValue r\<rparr>)"

text \<open>
  The loop over the rows, from index \<open>i\<close> on: the warnings raised and the sources
  added. A tile whose in-memory dataset cannot be made is skipped with a warning.
\<close>

fun add_sources ::
  "environment \<Rightarrow> PostGISRasterDataset \<Rightarrow> geotransform \<Rightarrow> nat \<Rightarrow> tile_row list \<Rightarrow>
     (CPLErr \<times> CPLErrorNum) list \<times> simple_source list"
where
  "add_sources env ds adfTransform i [] = ([], [])"
| "add_sources env ds adfTransform i (r # rs) =
     (let rest = add_sources env ds adfTransform (Suc i) rs
      in if \<not> new_GDALOpenInfo_ok env i then ((CE_Warning, CPLE_AppDefined) # fst rest, snd rest)
         else if \<not> MEMDataset_Open_ok env i then ((CE_Warning, CPLE_AppDefined) # fst rest, snd rest)
         else if \<not> GetRasterBand_ok env i then ((CE_Warning, CPLE_AppDefined) # fst rest, snd rest)
         else (fst rest, tile_source env ds adfTransform i r # snd rest))"

text \<open>
  What a call of \<^verbatim>\<open>IRasterIO\<close> leaves: the status returned, the errors raised, the
  queries sent to the store, the caller's buffer, and the sources added to the
  composite. The store's answer is no result at all, a result whose status is not
  \<^verbatim>\<open>PGRES_TUPLES_OK\<close>, or a list of rows (whose length is never negative). The
  overview read is asked for only under the code's condition, and its buffer is
  read only where it was asked for.
\<close>

record rasterio_result =
  status :: CPLErr
  errors :: "(CPLErr \<times> CPLErrorNum) list"
  queries :: "tile_query list"
  pData_out :: "8 word list"
  sources :: "simple_source list"

definition IRasterIO ::
  "environment \<Rightarrow> PostGISRasterRasterBand \<Rightarrow> rasterio_request \<Rightarrow> 8 word list \<Rightarrow> rasterio_result"
where
  "IRasterIO env b rq pData =
     (if eRWFlag rq = GF_Write
      then \<lparr>status = CE_Failure, errors = [(CE_Failure, CPLE_NotSupported)], queries = [],
            pData_out = pData, sources = []\<rparr>
      else
        let ov = (if (nBufXSize rq < nXSize rq \<or> nBufYSize rq < nYSize rq) \<and>
                     GetOverviewCount b > 0
                  then Some (OverviewRasterIO env rq pData) else None)
        in if (case ov of Some (e, d) \<Rightarrow> e = CE_None | None \<Rightarrow> False)
           then \<lparr>status = CE_None, errors = [], queries = [],
                 pData_out = snd (the ov), sources = []\<rparr>
           else
             let pData1 = (case ov of Some (e, d) \<Rightarrow> d | None \<Rightarrow> pData);
                 ds = poDS b;
                 adfTransform = adfGeoTransform ds;
                 q = tile_query_of b rq
             in case PQexec_tiles env q of
                  PG_NULL \<Rightarrow>
                    \<lparr>status = CE_Failure, errors = [(CE_Failure, CPLE_AppDefined)],
                     queries = [q], pData_out = pData1, sources = []\<rparr>
                | PGRES_FATAL_ERROR \<Rightarrow>
                    \<lparr>status = CE_Failure, errors = [(CE_Failure, CPLE_AppDefined)],
                     queries = [q], pData_out = pData1, sources = []\<rparr>
                | PGRES_TUPLES_OK rows \<Rightarrow>
                    if rows = []
                    then \<lparr>status = CE_None, errors = [], queries = [q],
                          pData_out = pData1, sources = []\<rparr>
                    else if \<not> CPLCalloc_ok env
                    then \<lparr>status = CE_Failure, errors = [(CE_Failure, CPLE_AppDefined)],
                          queries = [q], pData_out = pData1, sources = []\<rparr>
                    else if \<not> VRTCreate_ok env
                    then \<lparr>status = CE_Failure, errors = [(CE_Failure, CPLE_AppDefined)],
                          queries = [q], pData_out = pData1, sources = []\<rparr>
                    else
                      let added = add_sources env ds adfTransform 0 rows;
                          vrt = \<lparr>vrt_nXSize = nXSize rq, vrt_nYSize = nYSize rq,
                                 vrt_projection = pszProjection ds,
                                 vrt_transform = adfTransform,
                                 vrt_eDataType = eDataType b,
                                 vrt_sources = snd added\<rparr>;
                          res = VRTRasterIO env vrt rq pData1
                      in \<lparr>status = fst res, errors = fst added, queries = [q],
                          pData_out = snd res, sources = snd added\<rparr>)"

text \<open>\<^verbatim>\<open>IReadBlock\<close>: a natural block is read as a window cut at the raster's edge.\<close>

definition IReadBlock ::
  "environment \<Rightarrow> PostGISRasterRasterBand \<Rightarrow> int \<Rightarrow> int \<Rightarrow> 8 word list \<Rightarrow> rasterio_result"
where
  "IReadBlock env b nBlockXOff nBlockYOff pImage =
     (let nPixelSize = GDALGetDataTypeSize (eDataType b) div 8;
          nReadXSize = (if (nBlockXOff + 1) * nBlockXSize b > nRasterXSize_band b
                        then nRasterXSize_band b - nBlockXOff * nBlockXSize b
                        else nBlockXSize b);
          nReadYSize = (if (nBlockYOff + 1) * nBlockYSize b > nRasterYSize_band b
                        then nRasterYSize_band b - nBlockYOff * nBlockYSize b
                        else nBlockYSize b)
      in IRasterIO env b
           \<lparr>eRWFlag = GF_Read, nXOff = nBlockXOff * nBlockXSize b,
            nYOff = nBlockYOff * nBlockYSize b, nXSize = nReadXSize, nYSize = nReadYSize,
            nBufXSize = nReadXSize, nBufYSize = nReadYSize, eBufType = eDataType b,
            nPixelSpace = nPixelSize, nLineSpace = nPixelSize * nBlockXSize b\<rparr>
           pImage)"

subsection \<open>The specification's formulas\<close>

text \<open>
  The pentagon as the specification words it: the transform applied to the window's
  four corners in pixel coordinates, upper left, upper right, lower right, lower
  left, and the upper left again.
\<close>

definition apply_transform :: "geotransform \<Rightarrow> real \<times> real \<Rightarrow> real \<times> real" where
  "apply_transform T p = (T 0 + fst p * T 1 + snd p * T 2, T 3 + fst p * T 4 + snd p * T 5)"

definition spec_pentagon :: "geotransform \<Rightarrow> int \<Rightarrow> int \<Rightarrow> int \<Rightarrow> int \<Rightarrow> (real \<times> real) list" where
  "spec_pentagon T x_off y_off x_size y_size =
     (let ul = (of_int x_off, of_int y_off);
          ur = (of_int (x_off + x_size), of_int y_off);
          lr = (of_int (x_off + x_size), of_int (y_off + y_size));
          ll = (of_int x_off, of_int (y_off + y_size))
      in map (apply_transform T) [ul, ur, lr, ll, ul])"

text \<open>
  The rounding as the specification words it: add one half, then drop the fraction
  (the sign is kept and the magnitude is rounded down). The sum is the
  platform's; a sum outside the range of an \<^verbatim>\<open>int\<close> has no truncation that is an
  \<^verbatim>\<open>int\<close>, and is converted as the platform does.
\<close>

definition spec_round :: "environment \<Rightarrow> real \<Rightarrow> int" where
  "spec_round env x =
     (let y = dbl_add env x (1 / 2)
      in if in_int_range y then (if y < 0 then - 1 else 1) * \<lfloor>\<bar>y\<bar>\<rfloor>
         else out_of_range_cast env y)"

text \<open>
  The per-tile windows as the specification words them, for a tile \<open>r\<close> and the
  windows carried by a source \<open>s\<close>: \<open>(xmin, ymax)\<close> is the dataset's upper left in
  world coordinates, \<open>(dsx, dsy)\<close> its pixel scale, \<open>(tlx, tly, tsx, tsy)\<close> the
  tile's geometry. Differences, products and quotients are the platform's.
\<close>

definition spec_windows ::
  "environment \<Rightarrow> PostGISRasterDataset \<Rightarrow> geotransform \<Rightarrow> tile_row \<Rightarrow> simple_source \<Rightarrow> bool"
where
  "spec_windows env ds T r s =
     (let dsx = T 1; dsy = T 5;
          tlx = dfTileUpperLeftX r; tly = dfTileUpperLeftY r;
          tsx = dfTileScaleX r; tsy = dfTileScaleY r
      in (if tlx < xmin ds
          then nSrcXOff s = spec_round env (dbl_div env (dbl_sub env (xmin ds) tlx) tsx) \<and>
               nDstXOff s = 0
          else nSrcXOff s = 0 \<and>
               nDstXOff s = spec_round env (dbl_div env (dbl_sub env tlx (xmin ds)) dsx)) \<and>
         (if ymax ds < tly
          then nSrcYOff s = spec_round env (dbl_div env (dbl_sub env tly (ymax ds)) \<bar>tsy\<bar>) \<and>
               nDstYOff s = 0
          else nSrcYOff s = 0 \<and>
               nDstYOff s = spec_round env (dbl_div env (dbl_sub env (ymax ds) tly) \<bar>dsy\<bar>)) \<and>
         nDstXSize s =
           spec_round env (dbl_div env (dbl_mul env (of_int (nTileWidth r)) tsx) dsx) \<and>
         nDstYSize s =
           spec_round env (dbl_div env (dbl_mul env (of_int (nTileHeight r)) \<bar>tsy\<bar>) \<bar>dsy\<bar>))"

subsection \<open>Concrete inputs\<close>

text \<open>
  A 4 by 4 dataset with the transform \<open>(0, 1, 0, 0, 0, -1)\<close>, one 8-bit tile that
  covers it exactly, and an environment in which the store answers every
  enumeration with the given rows, the overview read returns the given status and
  leaves the buffer alone, and the composite's read succeeds. Its arithmetic is
  the exact one, which is the arithmetic of doubles on the inputs used below
  (every operand and result there is an integer or a half of small magnitude),
  and its cast of a double out of range gives the least \<^verbatim>\<open>int\<close>.
\<close>

definition north_up :: geotransform where
  "north_up = (\<lambda>i. if i = 1 then 1 else if i = 5 then - 1 else 0)"

definition example_dataset :: PostGISRasterDataset where
  "example_dataset =
     \<lparr>bRegularBlocking = False, nRasterXSize = 4, nRasterYSize = 4, nSrid = 4326,
      pszSchema = ''public'', pszTable = ''tiles'', pszColumn = ''rast'', pszWhere = None,
      xmin = 0, ymax = 0, adfGeoTransform = north_up, pszProjection = [],
      eAccess_ds = GA_ReadOnly\<rparr>"

definition example_tile :: tile_row where
  "example_tile =
     \<lparr>pszHexWKB = [], nTileWidth = 4, nTileHeight = 4, pszDataType = ''8BUI'',
      dfTileBandNoDataValue = 255, dfTileScaleX = 1, dfTileScaleY = - 1,
      dfTileUpperLeftX = 0, dfTileUpperLeftY = 0\<rparr>"

definition example_env :: "tile_row list \<Rightarrow> CPLErr \<Rightarrow> environment" where
  "example_env rows ov =
     \<lparr>DEFAULT_BLOCK_X_SIZE = 256, DEFAULT_BLOCK_Y_SIZE = 256,
      PQexec_overviews = (\<lambda>sch tab col. PGRES_TUPLES_OK []), VSICalloc_ok = True,
      OverviewRasterIO = (\<lambda>rq buf. (ov, buf)),
      PQexec_tiles = (\<lambda>q. PGRES_TUPLES_OK rows),
      CPLCalloc_ok = True, VRTCreate_ok = True,
      CPLHexToBinary = (\<lambda>hex. []), GET_BAND_DATA = (\<lambda>d nband sz len. d),
      new_GDALOpenInfo_ok = (\<lambda>i. True), MEMDataset_Open_ok = (\<lambda>i. True),
      GetRasterBand_ok = (\<lambda>i. True),
      VRTRasterIO = (\<lambda>vrt rq buf. (CE_None, buf)),
      dbl_add = (\<lambda>x y. x + y), dbl_sub = (\<lambda>x y. x - y),
      dbl_mul = (\<lambda>x y. x * y), dbl_div = (\<lambda>x y. x / y),
      out_of_range_cast = (\<lambda>x. - 2147483648)\<rparr>"

text \<open>The same environment with an overview read that writes to the buffer and fails.\<close>

definition overwriting_env :: "tile_row list \<Rightarrow> environment" where
  "overwriting_env rows =
     (example_env rows CE_Failure)\<lparr>OverviewRasterIO := (\<lambda>rq buf. (CE_Failure, [9, 9, 9, 9]))\<rparr>"

text \<open>A level-0 band of the given type on the given dataset, with the given overviews.\<close>

definition example_band ::
  "PostGISRasterDataset \<Rightarrow> GDALDataType \<Rightarrow> PostGISRasterRasterBand list \<Rightarrow> PostGISRasterRasterBand"
where
  "example_band ds ty ovs =
     Band ds 1 False GA_ReadOnly ty False 0 4 4 [] 0 (int (length ovs))
       (if ovs = [] then None else Some ovs) 4 4"

definition example_overview :: PostGISRasterRasterBand where
  "example_overview =
     Band example_dataset 1 False GA_ReadOnly GDT_Byte False 0 4 4 [] 2 0 None 2 2"

text \<open>A read of the whole 4 by 4 window into a buffer of the given size.\<close>

definition example_request :: "int \<Rightarrow> int \<Rightarrow> rasterio_request" where
  "example_request bx by =
     \<lparr>eRWFlag = GF_Read, nXOff = 0, nYOff = 0, nXSize = 4, nYSize = 4,
      nBufXSize = bx, nBufYSize = by, eBufType = GDT_Byte, nPixelSpace = 1,
      nLineSpace = bx\<rparr>"

text \<open>
  The same raster stored with a negative pixel width: the transform is
  \<open>(4, -1, 0, 0, 0, -1)\<close>, so the dataset's upper left is at \<open>x = 4\<close> and it reaches
  down to \<open>x = 0\<close>. The tile has the x scale \<open>-1\<close> too and its upper left at
  \<open>x = 6\<close>: it reaches from 6 down to 2 and overlaps the dataset between 2 and 4.
\<close>

definition mirrored_dataset :: PostGISRasterDataset where
  "mirrored_dataset =
     example_dataset\<lparr>xmin := 4, adfGeoTransform :=
       (\<lambda>i. if i = 0 then 4 else if i = 1 then - 1 else if i = 5 then - 1 else 0)\<rparr>"

definition mirrored_tile :: tile_row where
  "mirrored_tile = example_tile\<lparr>dfTileScaleX := - 1, dfTileUpperLeftX := 6\<rparr>"

definition example_args :: "int \<Rightarrow> band_args" where
  "example_args factor =
     \<lparr>arg_nBand = 1, arg_hDataType = GDT_Byte, arg_bHasNoDataValue = False,
      arg_dfNodata = 0, arg_bSignedByte = False, arg_nBitDepth = 8, arg_nFactor = factor,
      arg_nBlockXSize = 0, arg_nBlockYSize = 0, arg_bIsOffline = False\<rparr>"

section \<open>Properties\<close>

subsection \<open>Pixel-type classifier\<close>

lemma c_toupper_digit_letters:
  "c_toupper CHR ''1'' = CHR ''1''" "c_toupper CHR ''2'' = CHR ''2''"
  "c_toupper CHR ''3'' = CHR ''3''" "c_toupper CHR ''4'' = CHR ''4''"
  "c_toupper CHR ''6'' = CHR ''6''" "c_toupper CHR ''8'' = CHR ''8''"
  "c_toupper CHR ''B'' = CHR ''B''" "c_toupper CHR ''U'' = CHR ''U''"
  "c_toupper CHR ''I'' = CHR ''I''" "c_toupper CHR ''S'' = CHR ''S''"
  "c_toupper CHR ''F'' = CHR ''F''" "c_toupper CHR ''X'' = CHR ''X''"
  by (simp_all add: c_toupper_def)

lemma TranslateDataType_recognized:
  "list_all (\<lambda>(t, ty). TranslateDataType t = ty) recognized_tags"
  by (simp add: recognized_tags_def TranslateDataType_def EQUALN_def
      c_toupper_digit_letters)

lemma TranslateDataType_Unknown_iff:
  "TranslateDataType s = GDT_Unknown \<longleftrightarrow> \<not> starts_with_recognized s"
  by (simp add: TranslateDataType_def starts_with_recognized_def recognized_tags_def
      eval_nat_numeral)

text \<open>
  The comparisons read on the tag with its letters in upper case: a match on the
  first five or four characters fixes the first four and three.
\<close>

lemma EQUALN_take:
  "EQUALN s t n \<longleftrightarrow> take n (map c_toupper s) = map c_toupper (take n t)"
  by (simp add: EQUALN_def take_map)

lemma take_shorter: "take n u = v \<Longrightarrow> m \<le> n \<Longrightarrow> take m u = take m v"
  by (metis min.absorb1 take_take)

lemma EQUALN_5_imp:
  assumes "take 5 u = [a, b, c, d, e]"
  shows "take 3 u = [a, b, c]" "take 4 u = [a, b, c, d]"
  using take_shorter [OF assms, of 3] take_shorter [OF assms, of 4] by simp_all

lemma EQUALN_4_imp:
  assumes "take 4 u = [a, b, c, d]"
  shows "take 3 u = [a, b, c]"
  using take_shorter [OF assms, of 3] by simp

lemma take_differs:
  "take m u = w \<Longrightarrow> m \<le> n \<Longrightarrow> w \<noteq> take m v \<Longrightarrow> take n u \<noteq> v"
  using take_shorter by blast

lemma TranslateDataType_upper:
  "TranslateDataType s =
     (let u = map c_toupper s
      in if take 3 u = ''1BB'' \<or> take 4 u = ''2BUI'' \<or> take 4 u = ''4BUI'' \<or>
            take 4 u = ''8BUI'' \<or> take 4 u = ''8BSI'' then GDT_Byte
         else if take 5 u = ''16BSI'' then GDT_Int16
         else if take 5 u = ''16BUI'' then GDT_UInt16
         else if take 5 u = ''32BSI'' then GDT_Int32
         else if take 5 u = ''32BUI'' then GDT_UInt32
         else if take 4 u = ''32BF'' then GDT_Float32
         else if take 4 u = ''64BF'' then GDT_Float64
         else GDT_Unknown)"
  by (simp add: TranslateDataType_def EQUALN_take c_toupper_digit_letters Let_def)

lemma TranslateDataType_take5:
  assumes "take 5 (map c_toupper s) = [a, b, c, d, e]"
  shows "TranslateDataType s =
     (if [a, b, c] = ''1BB'' \<or> [a, b, c, d] = ''2BUI'' \<or> [a, b, c, d] = ''4BUI'' \<or>
            [a, b, c, d] = ''8BUI'' \<or> [a, b, c, d] = ''8BSI'' then GDT_Byte
         else if [a, b, c, d, e] = ''16BSI'' then GDT_Int16
         else if [a, b, c, d, e] = ''16BUI'' then GDT_UInt16
         else if [a, b, c, d, e] = ''32BSI'' then GDT_Int32
         else if [a, b, c, d, e] = ''32BUI'' then GDT_UInt32
         else if [a, b, c, d] = ''32BF'' then GDT_Float32
         else if [a, b, c, d] = ''64BF'' then GDT_Float64
         else GDT_Unknown)"
  unfolding TranslateDataType_upper Let_def
  by (simp only: assms EQUALN_5_imp [OF assms])

lemma TranslateDataType_take4:
  assumes t4: "take 4 (map c_toupper s) = [a, b, c, d]"
    and far: "[a, b, c, d] \<noteq> ''16BS''" "[a, b, c, d] \<noteq> ''16BU''"
      "[a, b, c, d] \<noteq> ''32BS''" "[a, b, c, d] \<noteq> ''32BU''"
  shows "TranslateDataType s =
     (if [a, b, c] = ''1BB'' \<or> [a, b, c, d] = ''2BUI'' \<or> [a, b, c, d] = ''4BUI'' \<or>
            [a, b, c, d] = ''8BUI'' \<or> [a, b, c, d] = ''8BSI'' then GDT_Byte
         else if [a, b, c, d] = ''32BF'' then GDT_Float32
         else if [a, b, c, d] = ''64BF'' then GDT_Float64
         else GDT_Unknown)"
proof -
  have n5: "take 5 (map c_toupper s) \<noteq> ''16BSI''" "take 5 (map c_toupper s) \<noteq> ''16BUI''"
    "take 5 (map c_toupper s) \<noteq> ''32BSI''" "take 5 (map c_toupper s) \<noteq> ''32BUI''"
    using take_differs [OF t4, of 5 "''16BSI''"] take_differs [OF t4, of 5 "''16BUI''"]
      take_differs [OF t4, of 5 "''32BSI''"] take_differs [OF t4, of 5 "''32BUI''"] far
    by simp_all
  show ?thesis
    unfolding TranslateDataType_upper Let_def
    by (simp only: t4 EQUALN_4_imp [OF t4] n5 if_False)
qed

lemma TranslateDataType_take3:
  "take 3 (map c_toupper s) = ''1BB'' \<Longrightarrow> TranslateDataType s = GDT_Byte"
  unfolding TranslateDataType_upper Let_def by simp

lemma TranslateDataType_prefix_each:
  "EQUALN s ''1BB'' 3 \<longrightarrow> TranslateDataType s = GDT_Byte"
  "EQUALN s ''2BUI'' 4 \<longrightarrow> TranslateDataType s = GDT_Byte"
  "EQUALN s ''4BUI'' 4 \<longrightarrow> TranslateDataType s = GDT_Byte"
  "EQUALN s ''8BUI'' 4 \<longrightarrow> TranslateDataType s = GDT_Byte"
  "EQUALN s ''8BSI'' 4 \<longrightarrow> TranslateDataType s = GDT_Byte"
  "EQUALN s ''16BSI'' 5 \<longrightarrow> TranslateDataType s = GDT_Int16"
  "EQUALN s ''16BUI'' 5 \<longrightarrow> TranslateDataType s = GDT_UInt16"
  "EQUALN s ''32BSI'' 5 \<longrightarrow> TranslateDataType s = GDT_Int32"
  "EQUALN s ''32BUI'' 5 \<longrightarrow> TranslateDataType s = GDT_UInt32"
  "EQUALN s ''32BF'' 4 \<longrightarrow> TranslateDataType s = GDT_Float32"
  "EQUALN s ''64BF'' 4 \<longrightarrow> TranslateDataType s = GDT_Float64"
  by (simp_all add: EQUALN_take c_toupper_digit_letters
      TranslateDataType_take3 TranslateDataType_take4 TranslateDataType_take5)

lemma TranslateDataType_prefix:
  "\<forall>(t, ty)\<in>set recognized_tags. EQUALN s t (length t) \<longrightarrow> TranslateDataType s = ty"
  using TranslateDataType_prefix_each [of s]
  by (simp add: recognized_tags_def eval_nat_numeral)

text \<open>
  C5, as stated, fails: a tag outside the eleven is not always unknown. The
  comparison reads only as many characters as the recognized tag has, so the tag
  \<open>1BBX\<close>, which is none of the eleven, is classified as the 8-bit unsigned type.
\<close>

theorem TranslateDataType_longer_tag_counterexample:
  "''1BBX'' \<notin> set (map fst recognized_tags) \<and> TranslateDataType ''1BBX'' = GDT_Byte"
  by (simp add: recognized_tags_def TranslateDataType_def EQUALN_def c_toupper_digit_letters)

text \<open>
  C5, amended: the classifier maps each of the eleven recognized tags to its
  canonical type, the byte-or-narrower tags and \<open>8BSI\<close> to the 8-bit unsigned type;
  every tag that starts with a recognized tag, letter case apart, is classified
  like that tag; and the unknown type is returned exactly for the tags that start
  with none of the eleven.
\<close>

theorem TranslateDataType_classifies:
  "TranslateDataType ''1BB'' = GDT_Byte \<and> TranslateDataType ''2BUI'' = GDT_Byte \<and>
   TranslateDataType ''4BUI'' = GDT_Byte \<and> TranslateDataType ''8BUI'' = GDT_Byte \<and>
   TranslateDataType ''8BSI'' = GDT_Byte \<and> TranslateDataType ''16BSI'' = GDT_Int16 \<and>
   TranslateDataType ''16BUI'' = GDT_UInt16 \<and> TranslateDataType ''32BSI'' = GDT_Int32 \<and>
   TranslateDataType ''32BUI'' = GDT_UInt32 \<and> TranslateDataType ''32BF'' = GDT_Float32 \<and>
   TranslateDataType ''64BF'' = GDT_Float64 \<and>
   (\<forall>(t, ty)\<in>set recognized_tags. EQUALN s t (length t) \<longrightarrow> TranslateDataType s = ty) \<and>
   (TranslateDataType s = GDT_Unknown \<longleftrightarrow> \<not> starts_with_recognized s)"
proof -
  have "TranslateDataType ''1BB'' = GDT_Byte \<and> TranslateDataType ''2BUI'' = GDT_Byte \<and>
   TranslateDataType ''4BUI'' = GDT_Byte \<and> TranslateDataType ''8BUI'' = GDT_Byte \<and>
   TranslateDataType ''8BSI'' = GDT_Byte \<and> TranslateDataType ''16BSI'' = GDT_Int16 \<and>
   TranslateDataType ''16BUI'' = GDT_UInt16 \<and> TranslateDataType ''32BSI'' = GDT_Int32 \<and>
   TranslateDataType ''32BUI'' = GDT_UInt32 \<and> TranslateDataType ''32BF'' = GDT_Float32 \<and>
   TranslateDataType ''64BF'' = GDT_Float64"
    using TranslateDataType_recognized by (simp add: recognized_tags_def)
  with TranslateDataType_prefix [of s] TranslateDataType_Unknown_iff [of s]
  show ?thesis by (simp only: simp_thms)
qed

theorem TranslateDataType_classifies_witness:
  "EQUALN ''16bsiX'' ''16BSI'' (length ''16BSI'') \<and> TranslateDataType ''16bsiX'' = GDT_Int16 \<and>
   \<not> starts_with_recognized ''JPEG'' \<and> TranslateDataType ''JPEG'' = GDT_Unknown"
  using TranslateDataType_classifies [of "''JPEG''"]
    TranslateDataType_classifies [of "''16bsiX''"]
  by (simp add: starts_with_recognized_def recognized_tags_def EQUALN_def c_toupper_def
      char_of_eq_iff)

subsection \<open>The windowed read: refusal of writes\<close>

text \<open>
  C8: a windowed read with the write flag set returns a failure, raises the
  not-supported error, and sends no query to the store; the buffer is as it was.
\<close>

theorem IRasterIO_write_not_supported:
  "IRasterIO env b (rq\<lparr>eRWFlag := GF_Write\<rparr>) pData =
     \<lparr>status = CE_Failure, errors = [(CE_Failure, CPLE_NotSupported)], queries = [],
      pData_out = pData, sources = []\<rparr>"
  by (simp add: IRasterIO_def)

subsection \<open>The windowed read: what reaches the store and the composite\<close>

text \<open>Every source of the composite is the source computed for one of the rows.\<close>

lemma add_sources_mem:
  "s \<in> set (snd (add_sources env ds T i rs)) \<Longrightarrow>
     \<exists>j<length rs. s = tile_source env ds T (i + j) (rs ! j)"
proof (induction rs arbitrary: i)
  case Nil
  then show ?case by simp
next
  case (Cons r rs)
  show ?case
  proof (cases "s = tile_source env ds T i r")
    case True
    then show ?thesis by (intro exI [of _ 0]) simp
  next
    case False
    with Cons.prems have "s \<in> set (snd (add_sources env ds T (Suc i) rs))"
      by (simp add: Let_def split: if_splits)
    from Cons.IH [OF this] obtain j where "j < length rs"
      and "s = tile_source env ds T (Suc i + j) (rs ! j)" by blast
    then show ?thesis by (intro exI [of _ "Suc j"]) simp
  qed
qed

lemma IRasterIO_sources:
  assumes "PQexec_tiles env (tile_query_of b rq) = PGRES_TUPLES_OK rows"
    and "s \<in> set (sources (IRasterIO env b rq buf))"
  shows "s \<in> set (snd (add_sources env (poDS b) (adfGeoTransform (poDS b)) 0 rows))"
  using assms by (simp add: IRasterIO_def Let_def split: if_splits)

lemma IRasterIO_queries:
  "q \<in> set (queries (IRasterIO env b rq buf)) \<Longrightarrow> q = tile_query_of b rq"
  by (simp add: IRasterIO_def Let_def split: if_splits PGresult.splits)

lemma example_read_queries:
  "queries (IRasterIO (example_env rows CE_Failure) b (example_request bx by) buf) =
     [tile_query_of b (example_request bx by)]"
  by (simp add: IRasterIO_def example_env_def example_request_def Let_def)

lemma example_read_sources:
  "sources (IRasterIO (example_env [t] ov) (example_band ds ty []) (example_request 4 4) buf) =
     [tile_source (example_env [t] ov) ds (adfGeoTransform ds) 0 t]"
  by (simp add: IRasterIO_def example_env_def example_request_def example_band_def Let_def)

lemma example_read_two_sources:
  "sources (IRasterIO (example_env [t, t'] ov) (example_band ds ty []) (example_request 4 4) buf) =
     [tile_source (example_env [t, t'] ov) ds (adfGeoTransform ds) 0 t,
      tile_source (example_env [t, t'] ov) ds (adfGeoTransform ds) 1 t']"
  by (simp add: IRasterIO_def example_env_def example_request_def example_band_def Let_def)

text \<open>
  The loop adds the source of every row whose in-memory dataset could be made, and
  of no other; a read that reaches the loop leaves exactly these sources.
\<close>

lemma add_sources_installs:
  "j < length rs \<Longrightarrow>
   new_GDALOpenInfo_ok env (i + j) \<Longrightarrow> MEMDataset_Open_ok env (i + j) \<Longrightarrow>
   GetRasterBand_ok env (i + j) \<Longrightarrow>
     tile_source env ds T (i + j) (rs ! j) \<in> set (snd (add_sources env ds T i rs))"
proof (induction rs arbitrary: i j)
  case Nil
  then show ?case by simp
next
  case (Cons r rs)
  show ?case
  proof (cases j)
    case 0
    with Cons.prems show ?thesis by (simp add: Let_def)
  next
    case (Suc k)
    with Cons.prems Cons.IH [of k "Suc i"]
    have "tile_source env ds T (Suc i + k) (rs ! k) \<in> set (snd (add_sources env ds T (Suc i) rs))"
      by simp
    with Suc show ?thesis by (simp add: Let_def)
  qed
qed

lemma add_sources_ok:
  "s \<in> set (snd (add_sources env ds T i rs)) \<Longrightarrow>
     new_GDALOpenInfo_ok env (mem_iTuplesIndex (hSrcBand s)) \<and>
     MEMDataset_Open_ok env (mem_iTuplesIndex (hSrcBand s)) \<and>
     GetRasterBand_ok env (mem_iTuplesIndex (hSrcBand s))"
proof (induction rs arbitrary: i)
  case Nil
  then show ?case by simp
next
  case (Cons r rs)
  then show ?case
    by (auto simp: Let_def tile_source_def split: if_splits)
qed

lemma IRasterIO_sources_eq:
  assumes "eRWFlag rq = GF_Read"
    and "\<not> ((nBufXSize rq < nXSize rq \<or> nBufYSize rq < nYSize rq) \<and> GetOverviewCount b > 0 \<and>
            fst (OverviewRasterIO env rq buf) = CE_None)"
    and "PQexec_tiles env (tile_query_of b rq) = PGRES_TUPLES_OK rows"
    and "CPLCalloc_ok env" and "VRTCreate_ok env"
  shows "sources (IRasterIO env b rq buf) =
           snd (add_sources env (poDS b) (adfGeoTransform (poDS b)) 0 rows)"
  using assms
  by (cases "OverviewRasterIO env rq buf"; cases rows)
     (auto simp: IRasterIO_def Let_def)

subsection \<open>The polygon of the intersection query\<close>

text \<open>
  What the code sends: the pentagon of a window whose width and height are the
  requested ones multiplied by the byte size of the band's pixel type.
\<close>

lemma tile_query_polygon:
  "q_polygon (tile_query_of b rq) =
     spec_pentagon (adfGeoTransform (poDS b)) (nXOff rq) (nYOff rq)
       (nXSize rq * (GDALGetDataTypeSize (eDataType b) div 8))
       (nYSize rq * (GDALGetDataTypeSize (eDataType b) div 8))"
  by (simp add: tile_query_of_def adfProjWin_def spec_pentagon_def apply_transform_def
      Let_def GEOTRSFRM_defs)

lemma tile_query_polygon_Byte:
  "eDataType b = GDT_Byte \<Longrightarrow>
     q_polygon (tile_query_of b rq) =
       spec_pentagon (adfGeoTransform (poDS b)) (nXOff rq) (nYOff rq) (nXSize rq) (nYSize rq)"
  by (simp add: tile_query_polygon)

text \<open>
  C1 fails on the code: for a band of a 16-bit type on the 4 by 4 dataset with the
  transform \<open>(0, 1, 0, 0, 0, -1)\<close>, the read of the window \<open>(0, 0, 4, 4)\<close> sends the
  polygon with the corners \<open>(0, 0), (8, 0), (8, -8), (0, -8)\<close>, while the transform
  applied to the window's corners in pixels gives \<open>(0, 0), (4, 0), (4, -4), (0, -4)\<close>:
  the window's extent is multiplied by the two bytes of a pixel.
\<close>

theorem IRasterIO_polygon_scaled_by_pixel_size:
  "map q_polygon (queries (IRasterIO (example_env [] CE_Failure)
        (example_band example_dataset GDT_Int16 []) (example_request 4 4) [])) =
     [[(0, 0), (8, 0), (8, - 8), (0, - 8), (0, 0)]] \<and>
   spec_pentagon north_up 0 0 4 4 = [(0, 0), (4, 0), (4, - 4), (0, - 4), (0, 0)]"
  by (simp add: example_read_queries tile_query_polygon)
     (simp add: spec_pentagon_def apply_transform_def example_band_def example_dataset_def
       example_request_def north_up_def Let_def)

subsection \<open>The ordering of the enumeration\<close>

text \<open>
  C7: every tile enumeration query a read sends orders by the upper-left x
  ascending, and by the upper-left y ascending when the dataset's SRID is -1 and
  descending for every other SRID.
\<close>

theorem IRasterIO_order_by:
  "\<forall>q\<in>set (queries (IRasterIO env b rq buf)).
     q_orderByX q = ''asc'' \<and>
     q_orderByY q = (if nSrid (poDS b) = - 1 then ''asc'' else ''desc'')"
  by (auto dest!: IRasterIO_queries simp: tile_query_of_def Let_def)

theorem IRasterIO_order_by_witness:
  "map (\<lambda>q. (q_orderByY q, q_orderByX q))
     (queries (IRasterIO (example_env [] CE_Failure)
        (example_band example_dataset GDT_Byte []) (example_request 4 4) [])) =
     [(''desc'', ''asc'')] \<and>
   map (\<lambda>q. (q_orderByY q, q_orderByX q))
     (queries (IRasterIO (example_env [] CE_Failure)
        (example_band (example_dataset\<lparr>nSrid := - 1\<rparr>) GDT_Byte []) (example_request 4 4) [])) =
     [(''asc'', ''asc'')]"
  using IRasterIO_order_by [of "example_env [] CE_Failure"
        "example_band example_dataset GDT_Byte []" "example_request 4 4" "[]"]
    IRasterIO_order_by [of "example_env [] CE_Failure"
        "example_band (example_dataset\<lparr>nSrid := - 1\<rparr>) GDT_Byte []" "example_request 4 4" "[]"]
  by (simp add: example_read_queries) (simp add: example_band_def example_dataset_def)

subsection \<open>The windows of a tile\<close>

lemma int_cast_spec_round:
  "int_cast env (dbl_add env x (1 / 2)) = spec_round env x"
  by (simp add: int_cast_def spec_round_def c_int_of_double_def Let_def ceiling_def)

lemma tile_source_spec_windows:
  assumes "\<forall>x y. dbl_add env x y = dbl_add env y x"
  shows "spec_windows env ds T r (tile_source env ds T i r)"
proof -
  have c: "int_cast env (dbl_add env (1 / 2) x) = spec_round env x" for x
    using assms int_cast_spec_round [of env x] by simp
  show ?thesis
    by (simp add: spec_windows_def tile_source_def Let_def int_cast_spec_round c)
qed

lemma tile_source_index: "mem_iTuplesIndex (hSrcBand (tile_source env ds T i r)) = i"
  by (simp add: tile_source_def Let_def)

lemma tile_source_sizes:
  "nSrcXSize (tile_source env ds T i r) = nTileWidth r"
  "nSrcYSize (tile_source env ds T i r) = nTileHeight r"
  by (simp_all add: tile_source_def Let_def)

text \<open>
  C2: in a read that reaches the loop over the rows of the enumeration, every row
  whose in-memory dataset could be made has a source in the composite, at the
  row's index, and every source of the composite is the source of such a row;
  the source carries the windows of the specification for its row: the x offsets
  by the comparison of the tile's upper-left x with the dataset's xmin, the y
  offsets likewise with the absolute values of the y scales, the destination
  sizes from the tile's size and the ratio of the scales, each rounding adding
  one half and dropping the fraction. The arithmetic is the platform's, of which
  only that its sum does not depend on the order of the operands is used. The
  scales are taken to be nonzero, where the divisions of the code are defined.
\<close>

theorem IRasterIO_tile_windows:
  assumes rd: "eRWFlag rq = GF_Read"
    and ov: "\<not> ((nBufXSize rq < nXSize rq \<or> nBufYSize rq < nYSize rq) \<and> GetOverviewCount b > 0 \<and>
            fst (OverviewRasterIO env rq buf) = CE_None)"
    and rows: "PQexec_tiles env (tile_query_of b rq) = PGRES_TUPLES_OK rows"
    and alloc: "CPLCalloc_ok env" "VRTCreate_ok env"
    and comm: "\<forall>x y. dbl_add env x y = dbl_add env y x"
    and nz: "adfGeoTransform (poDS b) 1 \<noteq> 0" "adfGeoTransform (poDS b) 5 \<noteq> 0"
      "\<forall>r\<in>set rows. dfTileScaleX r \<noteq> 0 \<and> dfTileScaleY r \<noteq> 0"
  shows "(\<forall>j<length rows.
            new_GDALOpenInfo_ok env j \<and> MEMDataset_Open_ok env j \<and> GetRasterBand_ok env j \<longrightarrow>
            (\<exists>s\<in>set (sources (IRasterIO env b rq buf)).
               mem_iTuplesIndex (hSrcBand s) = j \<and>
               spec_windows env (poDS b) (adfGeoTransform (poDS b)) (rows ! j) s)) \<and>
         (\<forall>s\<in>set (sources (IRasterIO env b rq buf)).
            \<exists>j<length rows.
               mem_iTuplesIndex (hSrcBand s) = j \<and>
               new_GDALOpenInfo_ok env j \<and> MEMDataset_Open_ok env j \<and> GetRasterBand_ok env j \<and>
               spec_windows env (poDS b) (adfGeoTransform (poDS b)) (rows ! j) s)"
proof (intro conjI allI impI ballI)
  fix j
  assume j: "j < length rows"
    and ok: "new_GDALOpenInfo_ok env j \<and> MEMDataset_Open_ok env j \<and> GetRasterBand_ok env j"
  let ?s = "tile_source env (poDS b) (adfGeoTransform (poDS b)) j (rows ! j)"
  from add_sources_installs [of j rows env 0 "poDS b" "adfGeoTransform (poDS b)"] j ok
  have "?s \<in> set (sources (IRasterIO env b rq buf))"
    by (simp add: IRasterIO_sources_eq [OF rd ov rows alloc])
  moreover have "mem_iTuplesIndex (hSrcBand ?s) = j" by (rule tile_source_index)
  moreover have "spec_windows env (poDS b) (adfGeoTransform (poDS b)) (rows ! j) ?s"
    by (rule tile_source_spec_windows [OF comm])
  ultimately show "\<exists>s\<in>set (sources (IRasterIO env b rq buf)).
               mem_iTuplesIndex (hSrcBand s) = j \<and>
               spec_windows env (poDS b) (adfGeoTransform (poDS b)) (rows ! j) s"
    by blast
next
  fix s
  assume s: "s \<in> set (sources (IRasterIO env b rq buf))"
  from IRasterIO_sources [OF rows s] have mem:
    "s \<in> set (snd (add_sources env (poDS b) (adfGeoTransform (poDS b)) 0 rows))" .
  from add_sources_mem [OF mem] obtain j where j: "j < length rows"
    and eq: "s = tile_source env (poDS b) (adfGeoTransform (poDS b)) (0 + j) (rows ! j)"
    by blast
  from eq have idx: "mem_iTuplesIndex (hSrcBand s) = j" by (simp add: tile_source_index)
  from add_sources_ok [OF mem] idx
  have "new_GDALOpenInfo_ok env j \<and> MEMDataset_Open_ok env j \<and> GetRasterBand_ok env j"
    by simp
  moreover from eq have "spec_windows env (poDS b) (adfGeoTransform (poDS b)) (rows ! j) s"
    by (simp add: tile_source_spec_windows [OF comm])
  ultimately show "\<exists>j<length rows.
               mem_iTuplesIndex (hSrcBand s) = j \<and>
               new_GDALOpenInfo_ok env j \<and> MEMDataset_Open_ok env j \<and> GetRasterBand_ok env j \<and>
               spec_windows env (poDS b) (adfGeoTransform (poDS b)) (rows ! j) s"
    using j idx by blast
qed

text \<open>
  The witness: two tiles, the first with its upper left two units west and one
  unit north of the dataset's (two columns and one row of it are skipped), the
  second two units east and two units south of it.
\<close>

theorem IRasterIO_tile_windows_witness:
  "(\<exists>s\<in>set (sources (IRasterIO
        (example_env [example_tile\<lparr>dfTileUpperLeftX := - 2, dfTileUpperLeftY := 1\<rparr>,
                      example_tile\<lparr>dfTileUpperLeftX := 2, dfTileUpperLeftY := - 2\<rparr>] CE_None)
        (example_band example_dataset GDT_Byte []) (example_request 4 4) [])).
      mem_iTuplesIndex (hSrcBand s) = 1 \<and>
      spec_windows
        (example_env [example_tile\<lparr>dfTileUpperLeftX := - 2, dfTileUpperLeftY := 1\<rparr>,
                      example_tile\<lparr>dfTileUpperLeftX := 2, dfTileUpperLeftY := - 2\<rparr>] CE_None)
        example_dataset north_up
        (example_tile\<lparr>dfTileUpperLeftX := 2, dfTileUpperLeftY := - 2\<rparr>) s) \<and>
   map (\<lambda>s. (mem_iTuplesIndex (hSrcBand s), nSrcXOff s, nSrcYOff s, nDstXOff s, nDstYOff s,
              nDstXSize s, nDstYSize s))
     (sources (IRasterIO
        (example_env [example_tile\<lparr>dfTileUpperLeftX := - 2, dfTileUpperLeftY := 1\<rparr>,
                      example_tile\<lparr>dfTileUpperLeftX := 2, dfTileUpperLeftY := - 2\<rparr>] CE_None)
        (example_band example_dataset GDT_Byte []) (example_request 4 4) [])) =
     [(0, 2, 1, 0, 0, 4, 4), (1, 0, 0, 2, 2, 4, 4)]"
proof -
  let ?rows = "[example_tile\<lparr>dfTileUpperLeftX := - 2, dfTileUpperLeftY := 1\<rparr>,
                example_tile\<lparr>dfTileUpperLeftX := 2, dfTileUpperLeftY := - 2\<rparr>]"
  let ?env = "example_env ?rows CE_None"
  let ?b = "example_band example_dataset GDT_Byte []"
  have "(\<forall>j<length ?rows.
            new_GDALOpenInfo_ok ?env j \<and> MEMDataset_Open_ok ?env j \<and> GetRasterBand_ok ?env j \<longrightarrow>
            (\<exists>s\<in>set (sources (IRasterIO ?env ?b (example_request 4 4) [])).
               mem_iTuplesIndex (hSrcBand s) = j \<and>
               spec_windows ?env (poDS ?b) (adfGeoTransform (poDS ?b)) (?rows ! j) s)) \<and>
         (\<forall>s\<in>set (sources (IRasterIO ?env ?b (example_request 4 4) [])).
            \<exists>j<length ?rows.
               mem_iTuplesIndex (hSrcBand s) = j \<and>
               new_GDALOpenInfo_ok ?env j \<and> MEMDataset_Open_ok ?env j \<and> GetRasterBand_ok ?env j \<and>
               spec_windows ?env (poDS ?b) (adfGeoTransform (poDS ?b)) (?rows ! j) s)"
    by (rule IRasterIO_tile_windows)
       (simp_all add: example_env_def example_request_def example_band_def example_dataset_def
          example_tile_def north_up_def)
  then have "\<forall>j<length ?rows.
            new_GDALOpenInfo_ok ?env j \<and> MEMDataset_Open_ok ?env j \<and> GetRasterBand_ok ?env j \<longrightarrow>
            (\<exists>s\<in>set (sources (IRasterIO ?env ?b (example_request 4 4) [])).
               mem_iTuplesIndex (hSrcBand s) = j \<and>
               spec_windows ?env (poDS ?b) (adfGeoTransform (poDS ?b)) (?rows ! j) s)"
    by (rule conjunct1)
  from this [rule_format, of 1]
  have "\<exists>s\<in>set (sources (IRasterIO ?env ?b (example_request 4 4) [])).
               mem_iTuplesIndex (hSrcBand s) = 1 \<and>
               spec_windows ?env (poDS ?b) (adfGeoTransform (poDS ?b)) (?rows ! 1) s"
    by (simp add: example_env_def)
  then have first: "\<exists>s\<in>set (sources (IRasterIO ?env ?b (example_request 4 4) [])).
               mem_iTuplesIndex (hSrcBand s) = 1 \<and>
               spec_windows ?env example_dataset north_up
                 (example_tile\<lparr>dfTileUpperLeftX := 2, dfTileUpperLeftY := - 2\<rparr>) s"
    by (simp add: example_band_def example_dataset_def)
  have second: "map (\<lambda>s. (mem_iTuplesIndex (hSrcBand s), nSrcXOff s, nSrcYOff s, nDstXOff s,
              nDstYOff s, nDstXSize s, nDstYSize s))
     (sources (IRasterIO ?env ?b (example_request 4 4) [])) =
     [(0, 2, 1, 0, 0, 4, 4), (1, 0, 0, 2, 2, 4, 4)]"
    by (simp add: example_read_two_sources)
       (simp add: example_env_def example_dataset_def example_tile_def
         north_up_def tile_source_def Let_def int_cast_def in_int_range_def c_int_of_double_def)
  from first second show ?thesis by blast
qed

lemma int_cast_nonneg:
  "0 \<le> v \<Longrightarrow>
     0 \<le> int_cast env v \<or> int_cast env v \<in> out_of_range_cast env ` {v. \<not> in_int_range v}"
  by (auto simp: int_cast_def c_int_of_double_def)

lemma tile_source_offsets_nonneg:
  assumes sub: "\<forall>x y. y \<le> x \<longrightarrow> 0 \<le> dbl_sub env x y"
    and div: "\<forall>x y. 0 \<le> x \<and> 0 < y \<longrightarrow> 0 \<le> dbl_div env x y"
    and add: "\<forall>x. 0 \<le> x \<longrightarrow> 0 \<le> dbl_add env x (1 / 2)"
    and comm: "\<forall>x y. dbl_add env x y = dbl_add env y x"
    and pos: "0 < T 1" "T 5 \<noteq> 0" "0 < dfTileScaleX r" "dfTileScaleY r \<noteq> 0"
    and s: "s = tile_source env ds T i r"
  shows "\<forall>off\<in>{nSrcXOff s, nSrcYOff s, nDstXOff s, nDstYOff s}.
           0 \<le> off \<or> off \<in> out_of_range_cast env ` {v. \<not> in_int_range v}"
proof -
  have half: "0 \<le> dbl_add env (dbl_div env (dbl_sub env x y) z) (1 / 2)"
    if "y \<le> x" "0 < z" for x y z
    using that sub div add by simp
  have cast: "0 \<le> int_cast env (dbl_add env (dbl_div env (dbl_sub env x y) z) (1 / 2)) \<or>
      int_cast env (dbl_add env (dbl_div env (dbl_sub env x y) z) (1 / 2))
        \<in> out_of_range_cast env ` {v. \<not> in_int_range v}"
    if "y \<le> x" "0 < z" for x y z
    using int_cast_nonneg [OF half [OF that]] .
  have cast': "0 \<le> int_cast env (dbl_add env (1 / 2) (dbl_div env (dbl_sub env x y) z)) \<or>
      int_cast env (dbl_add env (1 / 2) (dbl_div env (dbl_sub env x y) z))
        \<in> out_of_range_cast env ` {v. \<not> in_int_range v}"
    if "y \<le> x" "0 < z" for x y z
    using cast [OF that] comm by simp
  have sx: "0 \<le> nSrcXOff s \<or> nSrcXOff s \<in> out_of_range_cast env ` {v. \<not> in_int_range v}"
    using cast [of "dfTileUpperLeftX r" "xmin ds" "dfTileScaleX r"] pos
    by (simp add: s tile_source_def Let_def)
  have dx: "0 \<le> nDstXOff s \<or> nDstXOff s \<in> out_of_range_cast env ` {v. \<not> in_int_range v}"
    using cast' [of "xmin ds" "dfTileUpperLeftX r" "T 1"] pos
    by (simp add: s tile_source_def Let_def)
  have sy: "0 \<le> nSrcYOff s \<or> nSrcYOff s \<in> out_of_range_cast env ` {v. \<not> in_int_range v}"
    using cast [of "ymax ds" "dfTileUpperLeftY r" "\<bar>dfTileScaleY r\<bar>"] pos
    by (simp add: s tile_source_def Let_def)
  have dy: "0 \<le> nDstYOff s \<or> nDstYOff s \<in> out_of_range_cast env ` {v. \<not> in_int_range v}"
    using cast' [of "dfTileUpperLeftY r" "ymax ds" "\<bar>T 5\<bar>"] pos
    by (simp add: s tile_source_def Let_def)
  from sx sy dx dy show ?thesis by blast
qed

text \<open>
  C3, as stated, fails: nothing is clamped. On the dataset stored with a negative
  pixel width, the tile that overlaps it from \<open>x = 6\<close> is added with the
  destination x offset -1, the destination width 4 and the full source width 4.
\<close>

theorem IRasterIO_negative_offset_counterexample:
  "map (\<lambda>s. (nDstXOff s, nDstXSize s, nSrcXSize s))
     (sources (IRasterIO (example_env [mirrored_tile] CE_None)
        (example_band mirrored_dataset GDT_Byte []) (example_request 4 4) [])) = [(- 1, 4, 4)]"
  by (simp add: example_read_sources)
     (simp add: tile_source_def Let_def mirrored_dataset_def mirrored_tile_def example_env_def
       example_dataset_def example_tile_def int_cast_def in_int_range_def c_int_of_double_def)

text \<open>
  C3, amended: every source added to the composite carries the offsets computed
  for its tile as they are, negative ones too, the tile's full width and height
  as the source size and the computed destination size: no offset is clamped
  and no size is reduced. When the dataset's x scale and the tile's x scale are
  positive (the y scales being nonzero) and the platform's difference, quotient
  and sum keep a result nonnegative where the exact one is, each of the four
  offsets is nonnegative or is what the platform's cast gives for a double
  outside the range of an \<^verbatim>\<open>int\<close>.
\<close>

theorem IRasterIO_offsets_not_clamped:
  assumes rows: "PQexec_tiles env (tile_query_of b rq) = PGRES_TUPLES_OK rows"
    and comm: "\<forall>x y. dbl_add env x y = dbl_add env y x"
    and nz: "adfGeoTransform (poDS b) 1 \<noteq> 0" "adfGeoTransform (poDS b) 5 \<noteq> 0"
      "\<forall>r\<in>set rows. dfTileScaleX r \<noteq> 0 \<and> dfTileScaleY r \<noteq> 0"
    and s: "s \<in> set (sources (IRasterIO env b rq buf))"
  shows "\<exists>j<length rows.
           mem_iTuplesIndex (hSrcBand s) = j \<and>
           spec_windows env (poDS b) (adfGeoTransform (poDS b)) (rows ! j) s \<and>
           nSrcXSize s = nTileWidth (rows ! j) \<and> nSrcYSize s = nTileHeight (rows ! j) \<and>
           ((\<forall>x y. y \<le> x \<longrightarrow> 0 \<le> dbl_sub env x y) \<and>
            (\<forall>x y. 0 \<le> x \<and> 0 < y \<longrightarrow> 0 \<le> dbl_div env x y) \<and>
            (\<forall>x. 0 \<le> x \<longrightarrow> 0 \<le> dbl_add env x (1 / 2)) \<and>
            0 < adfGeoTransform (poDS b) 1 \<and> 0 < dfTileScaleX (rows ! j) \<longrightarrow>
              (\<forall>off\<in>{nSrcXOff s, nSrcYOff s, nDstXOff s, nDstYOff s}.
                 0 \<le> off \<or> off \<in> out_of_range_cast env ` {v. \<not> in_int_range v}))"
proof -
  from IRasterIO_sources [OF rows s] add_sources_mem
  obtain j where j: "j < length rows"
    and eq: "s = tile_source env (poDS b) (adfGeoTransform (poDS b)) (0 + j) (rows ! j)"
    by blast
  from j nz(3) have nzj: "dfTileScaleY (rows ! j) \<noteq> 0" by simp
  have "mem_iTuplesIndex (hSrcBand s) = j" using eq by (simp add: tile_source_index)
  moreover have "spec_windows env (poDS b) (adfGeoTransform (poDS b)) (rows ! j) s"
    using eq by (simp add: tile_source_spec_windows [OF comm])
  moreover have "nSrcXSize s = nTileWidth (rows ! j) \<and> nSrcYSize s = nTileHeight (rows ! j)"
    using eq by (simp add: tile_source_sizes)
  moreover have "(\<forall>x y. y \<le> x \<longrightarrow> 0 \<le> dbl_sub env x y) \<and>
            (\<forall>x y. 0 \<le> x \<and> 0 < y \<longrightarrow> 0 \<le> dbl_div env x y) \<and>
            (\<forall>x. 0 \<le> x \<longrightarrow> 0 \<le> dbl_add env x (1 / 2)) \<and>
            0 < adfGeoTransform (poDS b) 1 \<and> 0 < dfTileScaleX (rows ! j) \<longrightarrow>
              (\<forall>off\<in>{nSrcXOff s, nSrcYOff s, nDstXOff s, nDstYOff s}.
                 0 \<le> off \<or> off \<in> out_of_range_cast env ` {v. \<not> in_int_range v})"
  proof (intro impI, elim conjE)
    assume "\<forall>x y. y \<le> x \<longrightarrow> 0 \<le> dbl_sub env x y"
      and "\<forall>x y. 0 \<le> x \<and> 0 < y \<longrightarrow> 0 \<le> dbl_div env x y"
      and "\<forall>x. 0 \<le> x \<longrightarrow> 0 \<le> dbl_add env x (1 / 2)"
      and "0 < adfGeoTransform (poDS b) 1" and "0 < dfTileScaleX (rows ! j)"
    then show "\<forall>off\<in>{nSrcXOff s, nSrcYOff s, nDstXOff s, nDstYOff s}.
                 0 \<le> off \<or> off \<in> out_of_range_cast env ` {v. \<not> in_int_range v}"
      using tile_source_offsets_nonneg [OF _ _ _ comm _ nz(2) _ nzj eq] by blast
  qed
  ultimately show ?thesis using j by blast
qed

text \<open>
  The witness, in an environment whose arithmetic keeps signs: a tile one unit
  east and two units north of the dataset's upper left.
\<close>

theorem IRasterIO_offsets_not_clamped_witness:
  "\<not> (\<exists>x y. y \<le> x \<and>
          dbl_sub (example_env [example_tile\<lparr>dfTileUpperLeftX := 1, dfTileUpperLeftY := 2\<rparr>]
                     CE_None) x y < 0) \<and>
   \<not> (\<exists>x y. 0 \<le> x \<and> 0 < y \<and>
          dbl_div (example_env [example_tile\<lparr>dfTileUpperLeftX := 1, dfTileUpperLeftY := 2\<rparr>]
                     CE_None) x y < 0) \<and>
   \<not> (\<exists>x. 0 \<le> x \<and>
          dbl_add (example_env [example_tile\<lparr>dfTileUpperLeftX := 1, dfTileUpperLeftY := 2\<rparr>]
                     CE_None) x (1 / 2) < 0) \<and>
   map (\<lambda>s. (nSrcXOff s, nSrcYOff s, nDstXOff s, nDstYOff s, nSrcXSize s, nSrcYSize s))
     (sources (IRasterIO
        (example_env [example_tile\<lparr>dfTileUpperLeftX := 1, dfTileUpperLeftY := 2\<rparr>] CE_None)
        (example_band example_dataset GDT_Byte []) (example_request 4 4) [])) =
     [(0, 2, 1, 0, 4, 4)]"
proof -
  let ?t = "example_tile\<lparr>dfTileUpperLeftX := 1, dfTileUpperLeftY := 2\<rparr>"
  let ?env = "example_env [?t] CE_None"
  have signs: "\<not> (\<exists>x y. y \<le> x \<and> dbl_sub ?env x y < 0)"
    "\<not> (\<exists>x y. 0 \<le> x \<and> 0 < y \<and> dbl_div ?env x y < 0)"
    "\<not> (\<exists>x. 0 \<le> x \<and> dbl_add ?env x (1 / 2) < 0)"
    by (auto simp: example_env_def not_less zero_le_divide_iff)
  have "map (\<lambda>s. (nSrcXOff s, nSrcYOff s, nDstXOff s, nDstYOff s, nSrcXSize s, nSrcYSize s))
     (sources (IRasterIO ?env (example_band example_dataset GDT_Byte []) (example_request 4 4) [])) =
     [(0, 2, 1, 0, 4, 4)]"
    using IRasterIO_offsets_not_clamped
      [of ?env "example_band example_dataset GDT_Byte []" "example_request 4 4" "[?t]"
        "tile_source ?env example_dataset north_up 0 ?t" "[]"]
    by (simp add: example_read_sources)
       (simp add: example_env_def example_band_def example_dataset_def example_tile_def
         north_up_def tile_source_def Let_def int_cast_def in_int_range_def c_int_of_double_def)
  with signs show ?thesis by blast
qed

subsection \<open>The windowed read: overviews\<close>

text \<open>
  C4, as stated, fails: with a buffer of 2 by 2 for a window of 4 by 4 and one
  overview, a read whose overview read returns a failure goes on to the level-0
  path; it sends the enumeration query and adds the tile to the composite.
\<close>

theorem IRasterIO_overview_failure_counterexample:
  "nBufXSize (example_request 2 2) < nXSize (example_request 2 2) \<and>
   GetOverviewCount (example_band example_dataset GDT_Byte [example_overview]) > 0 \<and>
   queries (IRasterIO (example_env [example_tile] CE_Failure)
      (example_band example_dataset GDT_Byte [example_overview]) (example_request 2 2) []) =
     [tile_query_of (example_band example_dataset GDT_Byte [example_overview])
        (example_request 2 2)] \<and>
   length (sources (IRasterIO (example_env [example_tile] CE_Failure)
      (example_band example_dataset GDT_Byte [example_overview]) (example_request 2 2) [])) = 1"
  by (simp add: example_read_queries)
     (simp add: IRasterIO_def example_env_def example_request_def example_band_def
       GetOverviewCount_def Let_def)

text \<open>
  C4, amended: for every read in which the buffer is narrower or lower than the
  window and the band's overview count is greater than 0, the overview read is
  tried; when it returns success the call returns success with the buffer as the
  overview read left it, and neither a query nor a source of the level-0 path is
  made; when it returns anything else the call goes on to the level-0 path and
  sends the enumeration query.
\<close>

theorem IRasterIO_overview_delegation:
  assumes "eRWFlag rq = GF_Read"
    and "nBufXSize rq < nXSize rq \<or> nBufYSize rq < nYSize rq"
    and "GetOverviewCount b > 0"
  shows "(fst (OverviewRasterIO env rq buf) = CE_None \<longrightarrow>
            IRasterIO env b rq buf =
              \<lparr>status = CE_None, errors = [], queries = [],
               pData_out = snd (OverviewRasterIO env rq buf), sources = []\<rparr>) \<and>
         (fst (OverviewRasterIO env rq buf) \<noteq> CE_None \<longrightarrow>
            queries (IRasterIO env b rq buf) = [tile_query_of b rq])"
  using assms
  by (cases "OverviewRasterIO env rq buf")
     (auto simp: IRasterIO_def Let_def split: PGresult.splits)

theorem IRasterIO_overview_delegation_witness:
  "IRasterIO (example_env [example_tile] CE_None)
      (example_band example_dataset GDT_Byte [example_overview]) (example_request 2 2) [7] =
     \<lparr>status = CE_None, errors = [], queries = [], pData_out = [7], sources = []\<rparr> \<and>
   queries (IRasterIO (example_env [example_tile] CE_Failure)
      (example_band example_dataset GDT_Byte [example_overview]) (example_request 2 2) [7]) =
     [tile_query_of (example_band example_dataset GDT_Byte [example_overview])
        (example_request 2 2)]"
  using IRasterIO_overview_delegation
      [of "example_request 2 2" "example_band example_dataset GDT_Byte [example_overview]"
        "example_env [example_tile] CE_None" "[7]"]
    IRasterIO_overview_delegation
      [of "example_request 2 2" "example_band example_dataset GDT_Byte [example_overview]"
        "example_env [example_tile] CE_Failure" "[7]"]
  by (simp add: example_env_def example_request_def example_band_def GetOverviewCount_def)

subsection \<open>The windowed read: no intersecting tile\<close>

text \<open>
  C6, as stated, fails: the buffer is handed to the host's overview read before
  the enumeration. With a buffer of 2 by 2 for a window of 4 by 4 and one
  overview, an overview read that writes \<open>9, 9, 9, 9\<close> and fails is followed by the
  enumeration query; the query returns zero rows, the call returns success, and
  the buffer, \<open>1, 2, 3, 4\<close> before the call, holds \<open>9, 9, 9, 9\<close>.
\<close>

theorem IRasterIO_no_rows_overview_wrote_counterexample:
  "queries (IRasterIO (overwriting_env [])
      (example_band example_dataset GDT_Byte [example_overview]) (example_request 2 2)
      [1, 2, 3, 4]) =
     [tile_query_of (example_band example_dataset GDT_Byte [example_overview])
        (example_request 2 2)] \<and>
   PQexec_tiles (overwriting_env [])
     (tile_query_of (example_band example_dataset GDT_Byte [example_overview])
        (example_request 2 2)) = PGRES_TUPLES_OK [] \<and>
   status (IRasterIO (overwriting_env [])
      (example_band example_dataset GDT_Byte [example_overview]) (example_request 2 2)
      [1, 2, 3, 4]) = CE_None \<and>
   pData_out (IRasterIO (overwriting_env [])
      (example_band example_dataset GDT_Byte [example_overview]) (example_request 2 2)
      [1, 2, 3, 4]) = [9, 9, 9, 9]"
  by (simp add: IRasterIO_def overwriting_env_def example_env_def example_request_def
      example_band_def GetOverviewCount_def Let_def)

text \<open>
  C6, amended: for every read whose tile enumeration query is sent and returns
  zero rows, the call returns success, raises no error and adds no source, and
  the level-0 path writes nothing to the caller's buffer: the buffer is as it
  was before the call when no overview read was tried (the buffer is not smaller
  than the window, or the band has no overviews), and as the failed overview
  read left it otherwise.
\<close>

theorem IRasterIO_no_rows:
  assumes "queries (IRasterIO env b rq buf) = [q]"
    and "PQexec_tiles env q = PGRES_TUPLES_OK []"
  shows "status (IRasterIO env b rq buf) = CE_None \<and>
         errors (IRasterIO env b rq buf) = [] \<and>
         sources (IRasterIO env b rq buf) = [] \<and>
         pData_out (IRasterIO env b rq buf) =
           (if (nBufXSize rq < nXSize rq \<or> nBufYSize rq < nYSize rq) \<and> GetOverviewCount b > 0
            then snd (OverviewRasterIO env rq buf) else buf)"
proof -
  from assms(1) have q: "q = tile_query_of b rq"
    using IRasterIO_queries [of q env b rq buf] by simp
  from assms(1) have rd: "eRWFlag rq \<noteq> GF_Write"
    by (auto simp: IRasterIO_def)
  show ?thesis
    using assms(1) assms(2) [unfolded q] rd
    by (cases "OverviewRasterIO env rq buf")
       (auto simp: IRasterIO_def Let_def split: if_splits)
qed

theorem IRasterIO_no_rows_witness:
  "status (IRasterIO (example_env [] CE_None)
      (example_band example_dataset GDT_Byte [example_overview]) (example_request 4 4)
      [1, 2, 3, 4]) = CE_None \<and>
   pData_out (IRasterIO (example_env [] CE_None)
      (example_band example_dataset GDT_Byte [example_overview]) (example_request 4 4)
      [1, 2, 3, 4]) = [1, 2, 3, 4] \<and>
   status (IRasterIO (overwriting_env [])
      (example_band example_dataset GDT_Byte [example_overview]) (example_request 2 2)
      [1, 2, 3, 4]) = CE_None \<and>
   pData_out (IRasterIO (overwriting_env [])
      (example_band example_dataset GDT_Byte [example_overview]) (example_request 2 2)
      [1, 2, 3, 4]) = [9, 9, 9, 9]"
  using IRasterIO_no_rows [of "example_env [] CE_None"
      "example_band example_dataset GDT_Byte [example_overview]" "example_request 4 4"
      "[1, 2, 3, 4]"
      "tile_query_of (example_band example_dataset GDT_Byte [example_overview])
         (example_request 4 4)"]
    IRasterIO_no_rows [of "overwriting_env []"
      "example_band example_dataset GDT_Byte [example_overview]" "example_request 2 2"
      "[1, 2, 3, 4]"
      "tile_query_of (example_band example_dataset GDT_Byte [example_overview])
         (example_request 2 2)"]
  by (simp add: IRasterIO_def overwriting_env_def example_env_def example_request_def
      example_band_def GetOverviewCount_def Let_def)

subsection \<open>The constructor\<close>

lemma c_int_of_double_of_int: "c_int_of_double (of_int n) = n"
  by (simp add: c_int_of_double_def)

lemma c_MIN_min: "c_MIN a b = min a b"
  by (simp add: c_MIN_def min_def)

lemma PostGISRasterRasterBand_new_block_size:
  assumes "PostGISRasterRasterBand_new fuel env ds a = Some b"
  shows "nBlockXSize b = (if bRegularBlocking ds then arg_nBlockXSize a
            else c_MIN (nRasterXSize ds) (DEFAULT_BLOCK_X_SIZE env)) \<and>
         nBlockYSize b = (if bRegularBlocking ds then arg_nBlockYSize a
            else c_MIN (nRasterYSize ds) (DEFAULT_BLOCK_Y_SIZE env))"
proof (cases fuel)
  case 0
  with assms show ?thesis by simp
next
  case (Suc k)
  with assms show ?thesis
    by (auto simp: Let_def split: if_splits PGresult.splits list.splits)
qed

lemma PostGISRasterRasterBand_new_level0_size:
  assumes "PostGISRasterRasterBand_new fuel env ds a = Some b" and "arg_nFactor a = 0"
  shows "nRasterXSize_band b = nRasterXSize ds \<and> nRasterYSize_band b = nRasterYSize ds"
proof (cases fuel)
  case 0
  with assms show ?thesis by simp
next
  case (Suc k)
  with assms show ?thesis
    by (auto simp: Let_def split: if_splits PGresult.splits list.splits)
qed

text \<open>
  The constructor returns: when no row of the overview catalogue has the factor 0,
  a nesting of depth two is enough for every band.
\<close>

lemma PostGISRasterRasterBand_new_returns:
  assumes "\<And>rows. PQexec_overviews env (pszSchema ds) (pszTable ds) (pszColumn ds) =
             PGRES_TUPLES_OK rows \<Longrightarrow> \<forall>r\<in>set rows. overview_factor r \<noteq> 0"
  shows "\<exists>b. PostGISRasterRasterBand_new (Suc (Suc k)) env ds a = Some b"
proof (cases "arg_nFactor a = 0")
  case False
  then show ?thesis by (simp add: Let_def)
next
  case True
  show ?thesis
  proof (cases "PQexec_overviews env (pszSchema ds) (pszTable ds) (pszColumn ds)")
    case PG_NULL
    with True show ?thesis by (simp add: Let_def)
  next
    case PGRES_FATAL_ERROR
    with True show ?thesis by (simp add: Let_def)
  next
    case (PGRES_TUPLES_OK rows)
    from assms [OF this] have nz: "\<forall>r\<in>set rows. overview_factor r \<noteq> 0" .
    show ?thesis
    proof (cases rows)
      case Nil
      with True PGRES_TUPLES_OK show ?thesis by (simp add: Let_def)
    next
      case (Cons r rs)
      have made: "list_all (\<lambda>m. m \<noteq> None)
            (map (\<lambda>row. PostGISRasterRasterBand_new (Suc k) env ds
                    (a\<lparr>arg_nFactor := overview_factor row\<rparr>)) (r # rs))"
        unfolding list_all_iff using nz Cons by (auto simp: Let_def)
      show ?thesis
        using True PGRES_TUPLES_OK Cons made
        by (subst PostGISRasterRasterBand_new.simps(2))
           (simp add: Let_def del: PostGISRasterRasterBand_new.simps(2))
    qed
  qed
qed

lemma example_new:
  "PostGISRasterRasterBand_new 1 (example_env [] CE_None) example_dataset (example_args 0) =
     Some (example_band example_dataset GDT_Byte [])"
  by (simp add: example_env_def example_dataset_def example_args_def example_band_def Let_def
      c_MIN_def)

text \<open>
  The overviews a level-0 band holds, when every row of the catalogue has a
  positive factor: one band for each row, in the rows' order, each with the
  row's factor.
\<close>

lemma level0_overviews:
  assumes new: "PostGISRasterRasterBand_new (Suc (Suc k)) env ds a = Some b"
    and lvl: "arg_nFactor a = 0"
    and rows: "PQexec_overviews env (pszSchema ds) (pszTable ds) (pszColumn ds) =
                 PGRES_TUPLES_OK rows"
    and pos: "\<forall>r\<in>set rows. 0 < overview_factor r"
    and ovs: "papoOverviews b = Some ovs"
  shows "length ovs = length rows \<and>
         (\<forall>i<length rows.
            nOverviewFactor (ovs ! i) = overview_factor (rows ! i) \<and>
            GetBand (ovs ! i) = 0 \<and> GetDataset (ovs ! i) = None \<and>
            GetOverviewCount (ovs ! i) = 0 \<and>
            nRasterXSize_band (ovs ! i) = nRasterXSize ds div overview_factor (rows ! i) \<and>
            nRasterYSize_band (ovs ! i) = nRasterYSize ds div overview_factor (rows ! i))"
proof (cases rows)
  case Nil
  with new lvl rows ovs show ?thesis by (auto simp: Let_def)
next
  case (Cons r rs)
  let ?f = "\<lambda>row. PostGISRasterRasterBand_new (Suc k) env ds (a\<lparr>arg_nFactor := overview_factor row\<rparr>)"
  from new lvl rows ovs Cons have "ovs = map the (map ?f rows)"
    by (subst (asm) PostGISRasterRasterBand_new.simps(2))
       (auto simp: Let_def simp del: PostGISRasterRasterBand_new.simps(2) split: if_splits)
  moreover have "\<forall>i<length rows. \<exists>b'. ?f (rows ! i) = Some b' \<and>
      nOverviewFactor b' = overview_factor (rows ! i) \<and>
            GetBand b' = 0 \<and> GetDataset b' = None \<and>
            GetOverviewCount b' = 0 \<and>
            nRasterXSize_band b' = nRasterXSize ds div overview_factor (rows ! i) \<and>
            nRasterYSize_band b' = nRasterYSize ds div overview_factor (rows ! i)"
  proof (intro allI impI)
    fix i assume "i < length rows"
    with pos have "0 < overview_factor (rows ! i)" by simp
    then show "\<exists>b'. ?f (rows ! i) = Some b' \<and>
      nOverviewFactor b' = overview_factor (rows ! i) \<and>
            GetBand b' = 0 \<and> GetDataset b' = None \<and>
            GetOverviewCount b' = 0 \<and>
            nRasterXSize_band b' = nRasterXSize ds div overview_factor (rows ! i) \<and>
            nRasterYSize_band b' = nRasterYSize ds div overview_factor (rows ! i)"
    by (auto simp: Let_def c_int_of_double_of_int GetBand_def GetDataset_def GetOverviewCount_def
      floor_divide_of_int_eq)
  qed
  ultimately show ?thesis by (auto simp del: PostGISRasterRasterBand_new.simps(2))
qed

text \<open>
  C9: a band constructed with a decimation factor greater than 0 is constructed
  at once; it reports the band index zero, no owning dataset and the overview
  count zero, it holds no overviews, and its raster dimensions are the floor of
  the dataset's width and height divided by the factor.
\<close>

theorem overview_band_invariants:
  assumes "0 < arg_nFactor a"
  shows "\<exists>b. PostGISRasterRasterBand_new (Suc k) env ds a = Some b \<and>
           nOverviewFactor b = arg_nFactor a \<and>
           GetBand b = 0 \<and> GetDataset b = None \<and> GetOverviewCount b = 0 \<and>
           papoOverviews b = None \<and>
           nRasterXSize_band b = \<lfloor>real_of_int (nRasterXSize ds) / real_of_int (arg_nFactor a)\<rfloor> \<and>
           nRasterYSize_band b = \<lfloor>real_of_int (nRasterYSize ds) / real_of_int (arg_nFactor a)\<rfloor> \<and>
           nRasterXSize_band b = nRasterXSize ds div arg_nFactor a \<and>
           nRasterYSize_band b = nRasterYSize ds div arg_nFactor a"
  using assms
  by (simp add: Let_def c_int_of_double_of_int GetBand_def GetDataset_def GetOverviewCount_def
      floor_divide_of_int_eq)

theorem overview_band_invariants_witness:
  "(\<exists>b. PostGISRasterRasterBand_new 1 (example_env [] CE_None)
          (example_dataset\<lparr>nRasterXSize := 5, nRasterYSize := 7\<rparr>) (example_args 2) = Some b \<and>
        GetBand b = 0 \<and> GetDataset b = None \<and> GetOverviewCount b = 0 \<and>
        nRasterXSize_band b = 2 \<and> nRasterYSize_band b = 3)"
  using overview_band_invariants [of "example_args 2" 0 "example_env [] CE_None"
      "example_dataset\<lparr>nRasterXSize := 5, nRasterYSize := 7\<rparr>"]
  by (auto simp: example_args_def example_dataset_def)

text \<open>
  C10, as stated, fails for an overview band: on a dataset of 1000 by 100 without
  regular blocking and with the default block size 256, the band of factor 4 has
  the raster 250 by 25 and the block 256 by 100, which exceeds it.
\<close>

theorem overview_block_exceeds_raster_counterexample:
  "map_option
     (\<lambda>b. (nBlockXSize b, nBlockYSize b, nRasterXSize_band b, nRasterYSize_band b,
           GetBlockSize b))
     (PostGISRasterRasterBand_new 1 (example_env [] CE_None)
        (example_dataset\<lparr>nRasterXSize := 1000, nRasterYSize := 100\<rparr>) (example_args 4)) =
     Some (256, 100, 250, 25, ([], 256, 100))"
  by (simp add: example_env_def example_dataset_def example_args_def Let_def c_MIN_def
      c_int_of_double_def GetBlockSize_def)

text \<open>
  C10, amended: a band constructed on a dataset without regular blocking has the
  block dimensions min(dataset raster width, default block width) by min(dataset
  raster height, default block height), so that a block does not exceed the
  dataset's raster, which for a level-0 band is the band's own raster (an
  overview band's own raster, the floor of the dataset's divided by the factor,
  can be smaller than its block); the band reports these dimensions as its
  natural block size whenever both are nonzero.
\<close>

theorem band_block_size:
  assumes "\<not> bRegularBlocking ds"
    and "PostGISRasterRasterBand_new fuel env ds a = Some b"
  shows "nBlockXSize b = min (nRasterXSize ds) (DEFAULT_BLOCK_X_SIZE env) \<and>
         nBlockYSize b = min (nRasterYSize ds) (DEFAULT_BLOCK_Y_SIZE env) \<and>
         nBlockXSize b \<le> nRasterXSize ds \<and> nBlockYSize b \<le> nRasterYSize ds \<and>
         (arg_nFactor a = 0 \<longrightarrow>
            nBlockXSize b \<le> nRasterXSize_band b \<and> nBlockYSize b \<le> nRasterYSize_band b) \<and>
         (nBlockXSize b \<noteq> 0 \<and> nBlockYSize b \<noteq> 0 \<longrightarrow>
            GetBlockSize b =
              ([], min (nRasterXSize ds) (DEFAULT_BLOCK_X_SIZE env),
                   min (nRasterYSize ds) (DEFAULT_BLOCK_Y_SIZE env)))"
  using PostGISRasterRasterBand_new_block_size [OF assms(2)]
    PostGISRasterRasterBand_new_level0_size [OF assms(2)] assms(1)
  by (auto simp: c_MIN_min GetBlockSize_def)

theorem band_block_size_witness:
  "PostGISRasterRasterBand_new 1 (example_env [] CE_None) example_dataset (example_args 0) =
     Some (example_band example_dataset GDT_Byte []) \<and>
   nBlockXSize (example_band example_dataset GDT_Byte []) = 4 \<and>
   nBlockYSize (example_band example_dataset GDT_Byte []) = 4 \<and>
   nRasterXSize_band (example_band example_dataset GDT_Byte []) = 4 \<and>
   nRasterYSize_band (example_band example_dataset GDT_Byte []) = 4 \<and>
   GetBlockSize (example_band example_dataset GDT_Byte []) = ([], 4, 4)"
  using band_block_size [of example_dataset 1 "example_env [] CE_None" "example_args 0"
      "example_band example_dataset GDT_Byte []"] example_new
  by (simp add: example_dataset_def example_env_def example_args_def example_band_def)

end
